theory Spec2Isabelle
  imports Complex_Main "HOL-Library.Word" "HOL-Library.Multiset"
begin

unbundle bit_operations_syntax

section \<open>Vectors and matrices (glm)\<close>

text \<open>
  The renderer computes with \<^verbatim>\<open>float\<close>. Every finite float is a real number, and the
  development reads float arithmetic as arithmetic on \<^typ>\<open>real\<close>, without the rounding
  of each operation. A division by zero leaves the finite floats: its result is infinite
  or NaN, and so is everything computed from it (\<open>NotFinite\<close> below). \<^verbatim>\<open>glm::vec2/vec3/vec4\<close> are tuples of components,
  \<^verbatim>\<open>glm::mat3/mat4\<close> are tuples of columns (glm is column-major: \<^verbatim>\<open>m[c][r]\<close>).
\<close>

type_synonym vec2 = "real \<times> real"
type_synonym vec3 = "real \<times> real \<times> real"
type_synonym vec4 = "real \<times> real \<times> real \<times> real"
type_synonym mat3 = "vec3 \<times> vec3 \<times> vec3"
type_synonym mat4 = "vec4 \<times> vec4 \<times> vec4 \<times> vec4"

definition vec3_zero :: vec3 where
  "vec3_zero = (0, 0, 0)"

fun vec3_add :: "vec3 \<Rightarrow> vec3 \<Rightarrow> vec3" where
  "vec3_add (a, b, c) (x, y, z) = (a + x, b + y, c + z)"


fun vec3_scale :: "vec3 \<Rightarrow> real \<Rightarrow> vec3" where
  "vec3_scale (a, b, c) k = (a * k, b * k, c * k)"

fun dot3 :: "vec3 \<Rightarrow> vec3 \<Rightarrow> real" where
  "dot3 (a, b, c) (x, y, z) = a * x + b * y + c * z"

text \<open>\<^verbatim>\<open>glm::length(v)\<close> is \<^verbatim>\<open>sqrt(dot(v, v))\<close>.\<close>

definition length3 :: "vec3 \<Rightarrow> real" where
  "length3 v = sqrt (dot3 v v)"

text \<open>
  A vector or matrix as a float computation leaves it: \<open>Finite\<close> with real entries, or
  \<open>NotFinite\<close> when its entries are infinite or NaN.
\<close>

datatype 'a fl = Finite 'a | NotFinite

text \<open>
  \<^verbatim>\<open>glm::normalize(v)\<close> is \<^verbatim>\<open>v * inversesqrt(dot(v, v))\<close>. For the zero vector
  \<^verbatim>\<open>inversesqrt(0)\<close> is infinite and every component \<open>0 * inf\<close> is NaN. For a vector with
  infinite or NaN components the dot product is infinite or NaN, its inverse square root
  is 0 or NaN, and every component of the result is NaN.
\<close>

definition normalize3 :: "vec3 fl \<Rightarrow> vec3 fl" where
  "normalize3 x =
     (case x of
        NotFinite \<Rightarrow> NotFinite
      | Finite v \<Rightarrow>
          if dot3 v v = 0 then NotFinite else Finite (vec3_scale v (1 / sqrt (dot3 v v))))"


text \<open>
  Matrix operations as glm defines them. \<^verbatim>\<open>glm::inverse\<close> of a 3x3 matrix multiplies
  the cofactors by \<^verbatim>\<open>1 / determinant\<close>: for a singular matrix that factor is infinite and
  every entry of the result is infinite or NaN.
\<close>

fun mat4_mul_vec4 :: "mat4 \<Rightarrow> vec4 \<Rightarrow> vec4" where
  "mat4_mul_vec4 ((a0, a1, a2, a3), (b0, b1, b2, b3), (c0, c1, c2, c3), (d0, d1, d2, d3)) (x, y, z, w) =
     (a0 * x + b0 * y + c0 * z + d0 * w,
      a1 * x + b1 * y + c1 * z + d1 * w,
      a2 * x + b2 * y + c2 * z + d2 * w,
      a3 * x + b3 * y + c3 * z + d3 * w)"

fun mat4_mul :: "mat4 \<Rightarrow> mat4 \<Rightarrow> mat4" where
  "mat4_mul m (c0, c1, c2, c3) =
     (mat4_mul_vec4 m c0, mat4_mul_vec4 m c1, mat4_mul_vec4 m c2, mat4_mul_vec4 m c3)"

definition mat4_identity :: mat4 where
  "mat4_identity = ((1, 0, 0, 0), (0, 1, 0, 0), (0, 0, 1, 0), (0, 0, 0, 1))"

definition mat3_identity :: mat3 where
  "mat3_identity = ((1, 0, 0), (0, 1, 0), (0, 0, 1))"

text \<open>\<^verbatim>\<open>glm::mat3(m)\<close> of a 4x4 matrix keeps the upper-left 3x3 block.\<close>

fun mat3_of_mat4 :: "mat4 \<Rightarrow> mat3" where
  "mat3_of_mat4 ((a0, a1, a2, a3), (b0, b1, b2, b3), (c0, c1, c2, c3), d) =
     ((a0, a1, a2), (b0, b1, b2), (c0, c1, c2))"

fun determinant3 :: "mat3 \<Rightarrow> real" where
  "determinant3 ((m00, m01, m02), (m10, m11, m12), (m20, m21, m22)) =
       m00 * (m11 * m22 - m21 * m12)
     - m10 * (m01 * m22 - m21 * m02)
     + m20 * (m01 * m12 - m11 * m02)"

fun inverse3 :: "mat3 \<Rightarrow> mat3 fl" where
  "inverse3 ((m00, m01, m02), (m10, m11, m12), (m20, m21, m22)) =
     (if determinant3 ((m00, m01, m02), (m10, m11, m12), (m20, m21, m22)) = 0 then NotFinite
      else
        (let OneOverDeterminant =
                1 / determinant3 ((m00, m01, m02), (m10, m11, m12), (m20, m21, m22))
         in Finite
             ((  (m11 * m22 - m21 * m12) * OneOverDeterminant,
               - (m01 * m22 - m21 * m02) * OneOverDeterminant,
                 (m01 * m12 - m11 * m02) * OneOverDeterminant),
              (- (m10 * m22 - m20 * m12) * OneOverDeterminant,
                 (m00 * m22 - m20 * m02) * OneOverDeterminant,
               - (m00 * m12 - m10 * m02) * OneOverDeterminant),
              (  (m10 * m21 - m20 * m11) * OneOverDeterminant,
               - (m00 * m21 - m20 * m01) * OneOverDeterminant,
                 (m00 * m11 - m10 * m01) * OneOverDeterminant))))"

fun transpose3 :: "mat3 \<Rightarrow> mat3" where
  "transpose3 ((m00, m01, m02), (m10, m11, m12), (m20, m21, m22)) =
     ((m00, m10, m20), (m01, m11, m21), (m02, m12, m22))"

fun mat3_mul_vec3 :: "mat3 \<Rightarrow> vec3 \<Rightarrow> vec3" where
  "mat3_mul_vec3 ((a0, a1, a2), (b0, b1, b2), (c0, c1, c2)) (x, y, z) =
     (a0 * x + b0 * y + c0 * z, a1 * x + b1 * y + c1 * z, a2 * x + b2 * y + c2 * z)"

text \<open>
  Transposition and the product with a finite vector for a matrix that may not be
  finite: the entries of such a matrix are infinite or NaN, and so is every sum of
  their products with finite numbers.
\<close>

definition transpose3_fl :: "mat3 fl \<Rightarrow> mat3 fl" where
  "transpose3_fl x = (case x of NotFinite \<Rightarrow> NotFinite | Finite m \<Rightarrow> Finite (transpose3 m))"

definition mat3_mul_vec3_fl :: "mat3 fl \<Rightarrow> vec3 \<Rightarrow> vec3 fl" where
  "mat3_mul_vec3_fl x v =
     (case x of NotFinite \<Rightarrow> NotFinite | Finite m \<Rightarrow> Finite (mat3_mul_vec3 m v))"

text \<open>\<^verbatim>\<open>glm::vec4(v, w)\<close> and \<^verbatim>\<open>glm::vec3(v4)\<close>.\<close>

fun vec4_of :: "vec3 \<Rightarrow> real \<Rightarrow> vec4" where
  "vec4_of (x, y, z) w = (x, y, z, w)"

fun vec3_of :: "vec4 \<Rightarrow> vec3" where
  "vec3_of (x, y, z, w) = (x, y, z)"

section \<open>Procedural sky: the per-face direction table\<close>

text \<open>
  \<^verbatim>\<open>examples/modelLoading.cpp\<close>, the loop over the six cubemap faces. A texel \<open>x\<close> of a
  face of \<open>envSize\<close> texels per side has the normalised coordinate
  \<^verbatim>\<open>(2.0f * (x + 0.5f) / envSize) - 1.0f\<close>.
\<close>

definition texel_coord :: "nat \<Rightarrow> nat \<Rightarrow> real" where
  "texel_coord envSize x = (2 * (real x + 0.5) / real envSize) - 1"

text \<open>
  The \<^verbatim>\<open>switch (face)\<close> has six cases and no default: for any other value \<^verbatim>\<open>dir\<close>
  is never assigned, which is \<open>None\<close> here (the loop only runs \<open>face < 6\<close>).
\<close>

definition face_dir :: "nat \<Rightarrow> real \<Rightarrow> real \<Rightarrow> vec3 option" where
  "face_dir face u v =
     (if face = 0 then Some (1, - v, - u)
      else if face = 1 then Some (- 1, - v, u)
      else if face = 2 then Some (u, 1, v)
      else if face = 3 then Some (u, - 1, - v)
      else if face = 4 then Some (u, - v, 1)
      else if face = 5 then Some (- u, - v, - 1)
      else None)"

section \<open>Mesh data (mesh.h)\<close>

text \<open>
  \<^verbatim>\<open>struct Vertex\<close> has no member initialisers, and \<^verbatim>\<open>processMesh\<close> starts every
  vertex with \<^verbatim>\<open>Vertex vertex;\<close>. What such a vertex holds before a field is assigned
  is decided by glm's default constructors, which are not part of this repository: the
  default-constructed vertex is a parameter (\<open>vertex0\<close>) of the functions below.
\<close>

record Vertex =
  Position :: vec3
  Normal :: "vec3 fl"
  TexCoords :: vec2
  Tangent :: "vec3 fl"
  Bitangent :: "vec3 fl"
  m_BoneIDs :: "int list"
  m_Weights :: "real list"

text \<open>
  \<^verbatim>\<open>struct Texture\<close>: the fields \<^verbatim>\<open>id\<close>, \<^verbatim>\<open>type\<close>, \<^verbatim>\<open>path\<close> carry the suffix
  \<open>_t\<close> here; the UV transform defaults to offset \<open>(0,0)\<close>, scale \<open>(1,1)\<close>, rotation 0.
\<close>

record Texture =
  id_t :: nat
  type_t :: string
  path_t :: string
  uvOffset :: vec2
  uvScale :: vec2
  uvRotation :: real

definition new_Texture :: "nat \<Rightarrow> string \<Rightarrow> string \<Rightarrow> Texture" where
  "new_Texture i ty p =
     \<lparr>id_t = i, type_t = ty, path_t = p, uvOffset = (0, 0), uvScale = (1, 1), uvRotation = 0\<rparr>"

record Mesh =
  vertices :: "Vertex list"
  indices :: "nat list"
  textures :: "Texture list"
  VAO :: nat
  transparent :: bool
  baseColorFactor :: vec4
  metallicFactor :: real
  roughnessFactor :: real
  centroid :: vec3
  VBO :: nat
  EBO :: nat

section \<open>The OpenGL context\<close>

text \<open>
  All GL objects and bindings are state of one context, which every function that
  issues GL calls takes and returns. The model keeps what this program writes and reads:
  object names handed out by \<^verbatim>\<open>glGen*\<close> (the next unused name, counted from 1), texture
  objects with their image and parameters, the active texture unit, the 2D texture bound
  at each unit, the program in use with its uniform values, the bound vertex array and
  element buffer, buffer contents, the depth mask, and the draw calls issued so far
  (each with the bindings it was issued under). Error flags only feed diagnostic
  printing in this program and are left out together with that printing.
\<close>

datatype gl_format = GL_RED | GL_RGB | GL_RGBA | GL_SRGB | GL_SRGB_ALPHA

record image =
  img_width :: nat
  img_height :: nat
  img_components :: nat
  img_data :: "nat list"

record tex_object =
  tex_internal_format :: "gl_format option"
  tex_format :: "gl_format option"
  tex_size :: "nat \<times> nat"
  tex_pixels :: "nat list"
  tex_mipmaps :: bool
  tex_repeat_s :: bool
  tex_repeat_t :: bool
  tex_trilinear :: bool
  tex_mag_linear :: bool

definition new_tex_object :: tex_object where
  "new_tex_object =
     \<lparr>tex_internal_format = None, tex_format = None, tex_size = (0, 0), tex_pixels = [],
      tex_mipmaps = False, tex_repeat_s = False, tex_repeat_t = False,
      tex_trilinear = False, tex_mag_linear = False\<rparr>"

datatype uniform_value = U1i int | U1f real | U4f real real real real

record draw_call =
  dc_program :: nat
  dc_units :: "nat \<Rightarrow> nat"
  dc_uniforms :: "nat \<times> string \<Rightarrow> uniform_value option"
  dc_vertex_array :: nat
  dc_element_buffer :: nat
  dc_count :: nat
  dc_depth_mask :: bool

record gl_state =
  gen_textures :: nat
  gen_arrays :: nat
  gen_buffers :: nat
  tex_objects :: "nat \<Rightarrow> tex_object option"
  active_texture :: nat
  bound_2d :: "nat \<Rightarrow> nat"
  current_program :: nat
  uniforms :: "nat \<times> string \<Rightarrow> uniform_value option"
  vertex_array :: nat
  array_buffer :: nat
  vao_element_buffer :: "nat \<Rightarrow> nat"
  vertex_data :: "nat \<Rightarrow> Vertex list option"
  index_data :: "nat \<Rightarrow> nat list option"
  depth_mask :: bool
  draw_calls :: "draw_call list"

definition gl_init :: gl_state where
  "gl_init =
     \<lparr>gen_textures = 0, gen_arrays = 0, gen_buffers = 0, tex_objects = (\<lambda>_. None),
      active_texture = 0, bound_2d = (\<lambda>_. 0), current_program = 0,
      uniforms = (\<lambda>_. None), vertex_array = 0, array_buffer = 0,
      vao_element_buffer = (\<lambda>_. 0),
      vertex_data = (\<lambda>_. None), index_data = (\<lambda>_. None), depth_mask = True,
      draw_calls = []\<rparr>"

definition glGenTextures :: "gl_state \<Rightarrow> nat \<times> gl_state" where
  "glGenTextures g = (Suc (gen_textures g), g\<lparr>gen_textures := Suc (gen_textures g)\<rparr>)"

definition glGenVertexArrays :: "gl_state \<Rightarrow> nat \<times> gl_state" where
  "glGenVertexArrays g = (Suc (gen_arrays g), g\<lparr>gen_arrays := Suc (gen_arrays g)\<rparr>)"

definition glGenBuffers :: "gl_state \<Rightarrow> nat \<times> gl_state" where
  "glGenBuffers g = (Suc (gen_buffers g), g\<lparr>gen_buffers := Suc (gen_buffers g)\<rparr>)"

text \<open>\<^verbatim>\<open>glActiveTexture(GL_TEXTURE0 + u)\<close>: the argument here is the unit number \<open>u\<close>.\<close>

definition glActiveTexture :: "nat \<Rightarrow> gl_state \<Rightarrow> gl_state" where
  "glActiveTexture u g = g\<lparr>active_texture := u\<rparr>"

text \<open>
  \<^verbatim>\<open>glBindTexture(GL_TEXTURE_2D, t)\<close> binds at the active unit and creates the texture
  object of a name bound for the first time. Every name this program binds comes from
  \<^verbatim>\<open>glGenTextures\<close>, for which the bind succeeds.
\<close>

definition glBindTexture :: "nat \<Rightarrow> gl_state \<Rightarrow> gl_state" where
  "glBindTexture t g =
     g\<lparr>bound_2d := (bound_2d g)(active_texture g := t),
       tex_objects := (if tex_objects g t = None then (tex_objects g)(t := Some new_tex_object)
                       else tex_objects g)\<rparr>"

definition current_texture :: "gl_state \<Rightarrow> nat" where
  "current_texture g = bound_2d g (active_texture g)"

definition update_current_texture :: "(tex_object \<Rightarrow> tex_object) \<Rightarrow> gl_state \<Rightarrow> gl_state" where
  "update_current_texture f g =
     (case tex_objects g (current_texture g) of
        None \<Rightarrow> g
      | Some ob \<Rightarrow> g\<lparr>tex_objects := (tex_objects g)(current_texture g := Some (f ob))\<rparr>)"

definition glTexImage2D :: "gl_format \<Rightarrow> nat \<Rightarrow> nat \<Rightarrow> gl_format \<Rightarrow> nat list \<Rightarrow> gl_state \<Rightarrow> gl_state" where
  "glTexImage2D internalFormat w h format pixels =
     update_current_texture (\<lambda>ob. ob\<lparr>tex_internal_format := Some internalFormat,
        tex_format := Some format, tex_size := (w, h), tex_pixels := pixels\<rparr>)"

definition glGenerateMipmap :: "gl_state \<Rightarrow> gl_state" where
  "glGenerateMipmap = update_current_texture (\<lambda>ob. ob\<lparr>tex_mipmaps := True\<rparr>)"

definition glUseProgram :: "nat \<Rightarrow> gl_state \<Rightarrow> gl_state" where
  "glUseProgram p g = g\<lparr>current_program := p\<rparr>"

text \<open>
  A uniform location identifies one named uniform of a program; distinct uniforms have
  distinct locations. A location is therefore the uniform's name, and \<open>None\<close> stands
  for the location \<open>-1\<close> of a name the program does not have. \<^verbatim>\<open>glUniform*\<close> writes
  to the program in use and silently ignores location \<open>-1\<close>.
\<close>

type_synonym location = "string option"

definition glUniform :: "location \<Rightarrow> uniform_value \<Rightarrow> gl_state \<Rightarrow> gl_state" where
  "glUniform loc v g =
     (case loc of
        None \<Rightarrow> g
      | Some name \<Rightarrow> g\<lparr>uniforms := (uniforms g)((current_program g, name) := Some v)\<rparr>)"

definition glBindVertexArray :: "nat \<Rightarrow> gl_state \<Rightarrow> gl_state" where
  "glBindVertexArray a g = g\<lparr>vertex_array := a\<rparr>"

definition glBindArrayBuffer :: "nat \<Rightarrow> gl_state \<Rightarrow> gl_state" where
  "glBindArrayBuffer b g = g\<lparr>array_buffer := b\<rparr>"

text \<open>The element-array binding belongs to the vertex array that is bound.\<close>

definition element_buffer :: "gl_state \<Rightarrow> nat" where
  "element_buffer g = vao_element_buffer g (vertex_array g)"

definition glBindElementBuffer :: "nat \<Rightarrow> gl_state \<Rightarrow> gl_state" where
  "glBindElementBuffer b g =
     g\<lparr>vao_element_buffer := (vao_element_buffer g)(vertex_array g := b)\<rparr>"

definition glBufferVertexData :: "Vertex list \<Rightarrow> gl_state \<Rightarrow> gl_state" where
  "glBufferVertexData vs g = g\<lparr>vertex_data := (vertex_data g)(array_buffer g := Some vs)\<rparr>"

definition glBufferIndexData :: "nat list \<Rightarrow> gl_state \<Rightarrow> gl_state" where
  "glBufferIndexData is g = g\<lparr>index_data := (index_data g)(element_buffer g := Some is)\<rparr>"

definition glDepthMask :: "bool \<Rightarrow> gl_state \<Rightarrow> gl_state" where
  "glDepthMask b g = g\<lparr>depth_mask := b\<rparr>"

definition glDrawElements :: "nat \<Rightarrow> gl_state \<Rightarrow> gl_state" where
  "glDrawElements n g =
     g\<lparr>draw_calls := draw_calls g @
        [\<lparr>dc_program = current_program g, dc_units = bound_2d g, dc_uniforms = uniforms g,
          dc_vertex_array = vertex_array g, dc_element_buffer = element_buffer g,
          dc_count = n, dc_depth_mask = depth_mask g\<rparr>]\<rparr>"

section \<open>Renderable mesh (mesh.h)\<close>

text \<open>
  The \<^verbatim>\<open>Shader\<close> class is declared in a header outside this repository's sources. The
  mesh uses its program name \<^verbatim>\<open>ID\<close>, \<^verbatim>\<open>use()\<close> (which makes that program current)
  and, through \<^verbatim>\<open>glGetUniformLocation(shader.ID, name)\<close>, which names are uniforms of
  the program.
\<close>

record Shader =
  ID :: nat
  active_uniform :: "string \<Rightarrow> bool"

definition glGetUniformLocation :: "Shader \<Rightarrow> string \<Rightarrow> location" where
  "glGetUniformLocation shader name = (if active_uniform shader name then Some name else None)"

definition use :: "Shader \<Rightarrow> gl_state \<Rightarrow> gl_state" where
  "use shader = glUseProgram (ID shader)"

text \<open>
  \<^verbatim>\<open>Mesh::setupMesh\<close>: three fresh names, the vertex and index lists uploaded into
  the two buffers, the vertex array left unbound. The attribute pointers describe the
  byte layout of \<^verbatim>\<open>Vertex\<close> and have no counterpart here.
\<close>

definition setupMesh :: "Mesh \<Rightarrow> gl_state \<Rightarrow> Mesh \<times> gl_state" where
  "setupMesh m g0 =
     (let (vao, g1) = glGenVertexArrays g0;
          (vbo, g2) = glGenBuffers g1;
          (ebo, g3) = glGenBuffers g2;
          g4 = glBindVertexArray vao g3;
          g5 = glBufferVertexData (vertices m) (glBindArrayBuffer vbo g4);
          g6 = glBufferIndexData (indices m) (glBindElementBuffer ebo g5)
      in (m\<lparr>VAO := vao, VBO := vbo, EBO := ebo\<rparr>, glBindVertexArray 0 g6))"

text \<open>The constructor \<^verbatim>\<open>Mesh(vertices, indices, textures, baseColorFactor, transparent,
  metallicFactor, roughnessFactor)\<close>; the centroid member starts as \<open>(0,0,0)\<close>.\<close>

definition Mesh_ctor ::
  "Vertex list \<Rightarrow> nat list \<Rightarrow> Texture list \<Rightarrow> vec4 \<Rightarrow> bool \<Rightarrow> real \<Rightarrow> real \<Rightarrow> gl_state
   \<Rightarrow> Mesh \<times> gl_state" where
  "Mesh_ctor vs is ts bcf tr mf rf g =
     setupMesh \<lparr>vertices = vs, indices = is, textures = ts, VAO = 0, transparent = tr,
                baseColorFactor = bcf, metallicFactor = mf, roughnessFactor = rf,
                centroid = vec3_zero, VBO = 0, EBO = 0\<rparr> g"

text \<open>
  The body shared by the three branches of the texture loop of \<^verbatim>\<open>Mesh::Draw\<close> and by
  its fallback: select the unit, bind the texture there, point the sampler uniform
  \<open>name\<close> at the unit, and pass the UV transform to \<open>name_uv\<close> and \<open>name_rot\<close> when
  the program has them.
\<close>

definition bind_sampler :: "Shader \<Rightarrow> string \<Rightarrow> nat \<Rightarrow> Texture \<Rightarrow> gl_state \<Rightarrow> gl_state" where
  "bind_sampler shader name unit T g0 =
     (let g1 = glActiveTexture unit g0;
          g2 = glBindTexture (id_t T) g1;
          g3 = glUniform (glGetUniformLocation shader name) (U1i (int unit)) g2;
          loc_uv = glGetUniformLocation shader (name @ ''_uv'');
          g4 = (if loc_uv \<noteq> None
                then glUniform loc_uv (U4f (fst (uvOffset T)) (snd (uvOffset T))
                                           (fst (uvScale T)) (snd (uvScale T))) g3
                else g3);
          loc_rot = glGetUniformLocation shader (name @ ''_rot'')
      in if loc_rot \<noteq> None then glUniform loc_rot (U1f (uvRotation T)) g4 else g4)"

definition UNIT_DIFFUSE :: nat where "UNIT_DIFFUSE = 0"
definition UNIT_NORMAL :: nat where "UNIT_NORMAL = 1"
definition UNIT_MR :: nat where "UNIT_MR = 2"
definition UNIT_HEIGHT :: nat where "UNIT_HEIGHT = 3"

text \<open>
  The loop over \<^verbatim>\<open>textures\<close>, with the three flags \<^verbatim>\<open>hasDiffuse\<close>, \<^verbatim>\<open>hasNormalMap\<close>,
  \<^verbatim>\<open>hasMetallicRoughness\<close> it carries. The last branch is the source's empty
  \<^verbatim>\<open>else\<close>: specular, height and further textures of a kind already seen are ignored.
\<close>

fun bind_textures ::
  "Shader \<Rightarrow> Texture list \<Rightarrow> bool \<times> bool \<times> bool \<Rightarrow> gl_state \<Rightarrow> (bool \<times> bool \<times> bool) \<times> gl_state" where
  "bind_textures shader [] flags g = (flags, g)"
| "bind_textures shader (T # Ts) (hasDiffuse, hasNormalMap, hasMetallicRoughness) g =
     (if type_t T = ''texture_diffuse'' \<and> \<not> hasDiffuse then
        bind_textures shader Ts (True, hasNormalMap, hasMetallicRoughness)
          (bind_sampler shader ''texture_diffuse1'' UNIT_DIFFUSE T g)
      else if type_t T = ''texture_normal'' \<and> \<not> hasNormalMap then
        bind_textures shader Ts (hasDiffuse, True, hasMetallicRoughness)
          (bind_sampler shader ''texture_normal1'' UNIT_NORMAL T g)
      else if type_t T = ''texture_metallicRoughness'' \<and> \<not> hasMetallicRoughness then
        bind_textures shader Ts (hasDiffuse, hasNormalMap, True)
          (bind_sampler shader ''texture_metallicRoughness1'' UNIT_MR T g)
      else bind_textures shader Ts (hasDiffuse, hasNormalMap, hasMetallicRoughness) g)"

definition set_flag :: "Shader \<Rightarrow> string \<Rightarrow> bool \<Rightarrow> gl_state \<Rightarrow> gl_state" where
  "set_flag shader name b g =
     (let loc = glGetUniformLocation shader name
      in if loc \<noteq> None then glUniform loc (U1i (if b then 1 else 0)) g else g)"

definition set_float :: "Shader \<Rightarrow> string \<Rightarrow> real \<Rightarrow> gl_state \<Rightarrow> gl_state" where
  "set_float shader name x g =
     (let loc = glGetUniformLocation shader name
      in if loc \<noteq> None then glUniform loc (U1f x) g else g)"

text \<open>
  \<^verbatim>\<open>Mesh::Draw\<close>. The diagnostic lambda \<^verbatim>\<open>localGlCheck\<close> and the one-time debug
  printing write to the console only (the lambda walks the texture units and then
  restores the active unit it found), so they do not appear.
\<close>

definition Mesh_Draw :: "Shader \<Rightarrow> Mesh \<Rightarrow> gl_state \<Rightarrow> gl_state" where
  "Mesh_Draw shader m g0 =
     (let g1 = use shader g0;
          ((hasDiffuse, hasNormalMap, hasMetallicRoughness), g2) =
             bind_textures shader (textures m) (False, False, False) g1;
          (hasDiffuse', g3) =
             (case textures m of
                T0 # _ \<Rightarrow>
                  if \<not> hasDiffuse then (True, bind_sampler shader ''texture_diffuse1'' 0 T0 g2)
                  else (hasDiffuse, g2)
              | [] \<Rightarrow> (hasDiffuse, g2));
          g4 = set_flag shader ''hasBaseColor'' hasDiffuse' g3;
          g5 = set_flag shader ''hasNormalMap'' hasNormalMap g4;
          g6 = set_flag shader ''hasMetallicRoughness'' hasMetallicRoughness g5;
          g7 = set_float shader ''metallicFactor'' (metallicFactor m) g6;
          g8 = set_float shader ''roughnessFactor'' (roughnessFactor m) g7;
          loc_baseColorFactor = glGetUniformLocation shader ''baseColorFactor'';
          g9 = (if loc_baseColorFactor \<noteq> None
                then (case baseColorFactor m of (r, gr, b, a) \<Rightarrow>
                        glUniform loc_baseColorFactor (U4f r gr b a) g8)
                else g8);
          g10 = glBindVertexArray (VAO m) g9;
          g11 = (if EBO m \<noteq> 0 then glBindElementBuffer (EBO m) g10 else g10);
          g12 = glDrawElements (length (indices m)) g11;
          g13 = glBindVertexArray 0 g12
      in glActiveTexture 0 g13)"

section \<open>The asset as the importer delivers it (Assimp)\<close>

text \<open>
  \<^verbatim>\<open>aiMatrix4x4\<close> is row-major with members \<^verbatim>\<open>a1..a4, b1..b4, c1..c4, d1..d4\<close>: a tuple
  of rows. A per-vertex array of \<^verbatim>\<open>aiMesh\<close> is a pointer that may be null: a list
  option. \<^verbatim>\<open>mNumVertices\<close> is the length of \<^verbatim>\<open>mVertices\<close>, \<^verbatim>\<open>mNumFaces\<close> that of
  \<^verbatim>\<open>mFaces\<close>, and a face is its index list. Only texture-coordinate set 0 is read.
\<close>

type_synonym aiMatrix4x4 = "vec4 \<times> vec4 \<times> vec4 \<times> vec4"

record aiMesh =
  mName :: string
  mVertices :: "vec3 list"
  mNormals :: "vec3 list option"
  mTextureCoords0 :: "vec3 list option"
  mTangents :: "vec3 list option"
  mBitangents :: "vec3 list option"
  mFaces :: "nat list list"
  mMaterialIndex :: nat

datatype aiTextureType =
  aiTextureType_DIFFUSE | aiTextureType_SPECULAR | aiTextureType_HEIGHT | aiTextureType_AMBIENT

text \<open>
  Of an \<^verbatim>\<open>aiMaterial\<close> the importer reads \<^verbatim>\<open>GetTextureCount(type)\<close> and
  \<^verbatim>\<open>GetTexture(type, i, &str)\<close>: per texture type, the list of texture paths.
\<close>

type_synonym aiMaterial = "aiTextureType \<Rightarrow> string list"

datatype aiNode = aiNode (mTransformation: aiMatrix4x4) (mMeshes: "nat list") (mChildren: "aiNode list")

record aiScene =
  mFlags :: "32 word"
  mRootNode :: "aiNode option"
  scene_mMeshes :: "aiMesh list"
  mMaterials :: "aiMaterial list"

definition AI_SCENE_FLAGS_INCOMPLETE :: "32 word" where
  "AI_SCENE_FLAGS_INCOMPLETE = 0x1"

section \<open>JSON documents (nlohmann::json)\<close>

text \<open>
  The value read by \<^verbatim>\<open>in >> j\<close>. Numbers are integers or floating-point numbers, an
  object is its list of members (looked up by key).
\<close>

datatype json =
  JNull | JBool bool | JInt int | JFloat real | JString string
  | JArray "json list" | JObject "(string \<times> json) list"

section \<open>What the import reads from outside\<close>

text \<open>
  \<^verbatim>\<open>ReadFile\<close>: the scene \<^verbatim>\<open>Assimp::Importer::ReadFile\<close> returns for a path (\<open>None\<close> is
  the null pointer) together with the importer's error string.
  \<^verbatim>\<open>gltf_json\<close>: the document read from the file at the path, \<open>None\<close> when the stream
  is not good or parsing throws.
  \<^verbatim>\<open>stbi_load\<close>: the decoded image of a file name, \<open>None\<close> when decoding fails.
  \<^verbatim>\<open>default_Vertex\<close>: what \<^verbatim>\<open>Vertex vertex;\<close> holds.
\<close>

record env =
  ReadFile :: "string \<Rightarrow> aiScene option \<times> string"
  gltf_json :: "string \<Rightarrow> json option"
  stbi_load :: "string \<Rightarrow> image option"
  default_Vertex :: Vertex

text \<open>
  Outside the GL context the import writes to the console. The lines kept are the two
  error reports (\<^verbatim>\<open>ERROR::ASSIMP:: ...\<close> and \<^verbatim>\<open>Texture failed to load at path: ...\<close>);
  the progress and debug lines, which nothing reads back, are not modelled.
\<close>

record world =
  gl :: gl_state
  console :: "string list"

definition world_init :: world where
  "world_init = \<lparr>gl = gl_init, console = []\<rparr>"

section \<open>TextureFromFile (model.h)\<close>

text \<open>A \<^verbatim>\<open>const char *\<close> view of a string ends at the first NUL.\<close>

definition c_str :: "string \<Rightarrow> string" where
  "c_str s = takeWhile (\<lambda>c. c \<noteq> CHR 0x00) s"

definition glTexParameters :: "gl_state \<Rightarrow> gl_state" where
  "glTexParameters =
     update_current_texture (\<lambda>ob. ob\<lparr>tex_repeat_s := True, tex_repeat_t := True,
        tex_trilinear := True, tex_mag_linear := True\<rparr>)"

text \<open>
  The texture name is generated before the image is decoded and is returned on both
  paths. On success the image is uploaded to the texture bound at the active unit (the
  binding is left in place); on failure one line is printed and no GL call follows.
\<close>

definition TextureFromFile :: "env \<Rightarrow> string \<Rightarrow> string \<Rightarrow> bool \<Rightarrow> world \<Rightarrow> nat \<times> world" where
  "TextureFromFile E path directory gamma w =
     (let filename = directory @ ''/'' @ path;
          (textureID, g1) = glGenTextures (gl w)
      in case stbi_load E filename of
           Some data \<Rightarrow>
             (let nrComponents = img_components data;
                  (format, internalFormat) =
                     (if nrComponents = 1 then (GL_RED, GL_RED)
                      else if nrComponents = 3 then (GL_RGB, if gamma then GL_SRGB else GL_RGB)
                      else if nrComponents = 4 then (GL_RGBA, if gamma then GL_SRGB_ALPHA else GL_RGBA)
                      else (GL_RGB, GL_RGB));
                  g2 = glBindTexture textureID g1;
                  g3 = glTexImage2D internalFormat (img_width data) (img_height data) format
                         (img_data data) g2;
                  g4 = glGenerateMipmap g3;
                  g5 = glTexParameters g4
              in (textureID, w\<lparr>gl := g5\<rparr>))
         | None \<Rightarrow>
             (textureID,
              w\<lparr>gl := g1, console := console w @ [''Texture failed to load at path: '' @ path]\<rparr>))"

section \<open>Model (model.h)\<close>

record UVTransform =
  offset :: vec2
  scale :: vec2
  rotation :: real

definition UVTransform_default :: UVTransform where
  "UVTransform_default = \<lparr>offset = (0, 0), scale = (1, 1), rotation = 0\<rparr>"

record MatRefs =
  baseColor :: int
  normal :: int
  metallicRoughness :: int

definition MatRefs_default :: MatRefs where
  "MatRefs_default = \<lparr>baseColor = - 1, normal = - 1, metallicRoughness = - 1\<rparr>"

record Model =
  textures_loaded :: "Texture list"
  meshes :: "Mesh list"
  directory :: string
  gammaCorrection :: bool
  imageTransforms :: "UVTransform list"
  imageUris :: "string list"
  materialImageRefs :: "MatRefs list"
  materialBaseColorFactors :: "vec4 list"
  materialMetallicFactors :: "real list"
  materialRoughnessFactors :: "real list"

text \<open>
  The inner loop of \<^verbatim>\<open>loadMaterialTextures\<close>: the first entry of the registry whose
  path compares equal (\<^verbatim>\<open>strcmp\<close>) to the requested one.
\<close>

fun find_loaded :: "Texture list \<Rightarrow> string \<Rightarrow> Texture option" where
  "find_loaded [] str = None"
| "find_loaded (t # ts) str =
     (if c_str (path_t t) = c_str str then Some t else find_loaded ts str)"

text \<open>
  \<^verbatim>\<open>loadMaterialTextures\<close>, the loop over the material's textures of one type, with the
  local \<^verbatim>\<open>textures\<close> vector as accumulator \<open>texs\<close>. A path found in the registry is reused as
  the registry holds it; any other is loaded, tagged \<open>typeName\<close> and appended to both.
\<close>

fun loadMaterialTextures_loop ::
  "env \<Rightarrow> string \<Rightarrow> string list \<Rightarrow> Texture list \<Rightarrow> Model \<Rightarrow> world \<Rightarrow> Texture list \<times> Model \<times> world" where
  "loadMaterialTextures_loop E typeName [] texs M w = (texs, M, w)"
| "loadMaterialTextures_loop E typeName (str # strs) texs M w =
     (case find_loaded (textures_loaded M) str of
        Some t \<Rightarrow> loadMaterialTextures_loop E typeName strs (texs @ [t]) M w
      | None \<Rightarrow>
          (let isGamma = (typeName = ''texture_diffuse'');
               (tid, w') = TextureFromFile E (c_str str) (directory M) isGamma w;
               texture = new_Texture tid typeName (c_str str)
           in loadMaterialTextures_loop E typeName strs (texs @ [texture])
                (M\<lparr>textures_loaded := textures_loaded M @ [texture]\<rparr>) w'))"

definition loadMaterialTextures ::
  "env \<Rightarrow> aiMaterial \<Rightarrow> aiTextureType \<Rightarrow> string \<Rightarrow> Model \<Rightarrow> world \<Rightarrow> Texture list \<times> Model \<times> world" where
  "loadMaterialTextures E mat type typeName M w =
     loadMaterialTextures_loop E typeName (mat type) [] M w"

section \<open>processMesh (model.h)\<close>

text \<open>
  Reads the C++ leaves undefined make the import fail here: a per-vertex array that is
  null, an index past the end of an array. The one division the importer itself writes
  (the centroid) is a checked division: a zero divisor is a failure as well.
\<close>

datatype fault = NullPointer | OutOfRange | DivideByZero

definition then_f :: "fault + 'a \<Rightarrow> ('a \<Rightarrow> fault + 'b) \<Rightarrow> fault + 'b" where
  "then_f r f = (case r of Inl e \<Rightarrow> Inl e | Inr x \<Rightarrow> f x)"

definition read_at :: "'a list option \<Rightarrow> nat \<Rightarrow> fault + 'a" where
  "read_at arr i =
     (case arr of
        None \<Rightarrow> Inl NullPointer
      | Some xs \<Rightarrow> if i < length xs then Inr (xs ! i) else Inl OutOfRange)"

text \<open>The results of a loop's iterations in order; the first failure ends the loop.\<close>

fun collect :: "(fault + 'a) list \<Rightarrow> fault + 'a list" where
  "collect [] = Inr []"
| "collect (r # rs) =
     (case r of
        Inl e \<Rightarrow> Inl e
      | Inr x \<Rightarrow> (case collect rs of Inl e \<Rightarrow> Inl e | Inr xs \<Rightarrow> Inr (x # xs)))"

definition vec3_div :: "vec3 \<Rightarrow> real \<Rightarrow> fault + vec3" where
  "vec3_div v k =
     (if k = 0 then Inl DivideByZero
      else (case v of (a, b, c) \<Rightarrow> Inr (a / k, b / k, c / k)))"

text \<open>\<^verbatim>\<open>aiMesh::HasNormals()\<close>: \<^verbatim>\<open>mNormals != nullptr && mNumVertices > 0\<close>.\<close>

definition HasNormals :: "aiMesh \<Rightarrow> bool" where
  "HasNormals mesh = (mNormals mesh \<noteq> None \<and> 0 < length (mVertices mesh))"

text \<open>
  One iteration of the vertex loop. \<open>vertex0\<close> is the freshly declared \<^verbatim>\<open>vertex\<close>; the
  position is always assigned, the normal only if the mesh has normals, tangent and
  bitangent only if it has texture coordinates; the UV is assigned on both branches.
  \<^verbatim>\<open>normalMat\<close> starts as the identity and is replaced only in the normals branch.
\<close>

definition processVertex :: "Vertex \<Rightarrow> mat4 \<Rightarrow> aiMesh \<Rightarrow> nat \<Rightarrow> fault + Vertex" where
  "processVertex vertex0 nodeTransform mesh i =
     then_f (read_at (Some (mVertices mesh)) i) (\<lambda>p.
       let transformedPos = mat4_mul_vec4 nodeTransform (vec4_of p 1);
           vertex1 = vertex0\<lparr>Position := vec3_of transformedPos\<rparr>
       in then_f
            (if HasNormals mesh then
               then_f (read_at (mNormals mesh) i) (\<lambda>n.
                 let normalMat = transpose3_fl (inverse3 (mat3_of_mat4 nodeTransform))
                 in Inr (normalMat,
                         vertex1\<lparr>Normal := normalize3 (mat3_mul_vec3_fl normalMat n)\<rparr>))
             else Inr (Finite mat3_identity, vertex1))
            (\<lambda>(normalMat, vertex2).
               case mTextureCoords0 mesh of
                 Some tcs \<Rightarrow>
                   then_f (read_at (Some tcs) i) (\<lambda>(tx, ty, tz).
                   then_f (read_at (mTangents mesh) i) (\<lambda>tg.
                   then_f (read_at (mBitangents mesh) i) (\<lambda>bt.
                     Inr (vertex2\<lparr>TexCoords := (tx, ty),
                                  Tangent := normalize3 (mat3_mul_vec3_fl normalMat tg),
                                  Bitangent := normalize3 (mat3_mul_vec3_fl normalMat bt)\<rparr>))))
               | None \<Rightarrow> Inr (vertex2\<lparr>TexCoords := (0, 0)\<rparr>)))"

definition processVertices :: "Vertex \<Rightarrow> mat4 \<Rightarrow> aiMesh \<Rightarrow> fault + Vertex list" where
  "processVertices vertex0 nodeTransform mesh =
     collect (map (processVertex vertex0 nodeTransform mesh) [0 ..< length (mVertices mesh)])"

text \<open>
  One of the three blocks that add a texture named by the glTF JSON: \<open>ref\<close> is the
  image index of the material, \<open>gamma\<close> and \<open>typeName\<close> are the block's constants.
  The search for an equal path runs over the mesh's own list \<open>texs\<close>; the texture is
  appended to that list only.
\<close>

definition add_image_texture ::
  "env \<Rightarrow> Model \<Rightarrow> int \<Rightarrow> bool \<Rightarrow> string \<Rightarrow> Texture list \<times> world \<Rightarrow> Texture list \<times> world" where
  "add_image_texture E M ref gamma typeName tw =
     (case tw of (texs, w) \<Rightarrow>
        if 0 \<le> ref \<and> ref < int (length (imageUris M)) then
          (let uri = imageUris M ! nat ref;
               found = list_ex (\<lambda>t. path_t t = uri) texs
           in if \<not> found \<and> uri \<noteq> [] then
                (let (tid, w') = TextureFromFile E (c_str uri) (directory M) gamma w;
                     tex = new_Texture tid typeName uri;
                     tex' = (if 0 \<le> ref \<and> ref < int (length (imageTransforms M))
                             then tex\<lparr>uvOffset := offset (imageTransforms M ! nat ref),
                                      uvScale := scale (imageTransforms M ! nat ref),
                                      uvRotation := rotation (imageTransforms M ! nat ref)\<rparr>
                             else tex)
                 in (texs @ [tex'], w'))
              else (texs, w))
        else (texs, w))"

text \<open>
  The textures of a mesh: the four calls of \<^verbatim>\<open>loadMaterialTextures\<close> in the source's
  order (diffuse, specular, \<^verbatim>\<open>aiTextureType_HEIGHT\<close> tagged as normal map,
  \<^verbatim>\<open>aiTextureType_AMBIENT\<close> tagged as height map), then the textures of the glTF JSON
  when the material index is inside \<^verbatim>\<open>materialImageRefs\<close>.
\<close>

definition mesh_textures ::
  "env \<Rightarrow> aiMaterial \<Rightarrow> nat \<Rightarrow> Model \<Rightarrow> world \<Rightarrow> Texture list \<times> Model \<times> world" where
  "mesh_textures E material mi M0 w0 =
     (let (diffuseMaps, M1, w1) =
             loadMaterialTextures E material aiTextureType_DIFFUSE ''texture_diffuse'' M0 w0;
          (specularMaps, M2, w2) =
             loadMaterialTextures E material aiTextureType_SPECULAR ''texture_specular'' M1 w1;
          (normalMaps, M3, w3) =
             loadMaterialTextures E material aiTextureType_HEIGHT ''texture_normal'' M2 w2;
          (heightMaps, M4, w4) =
             loadMaterialTextures E material aiTextureType_AMBIENT ''texture_height'' M3 w3;
          texs = diffuseMaps @ specularMaps @ normalMaps @ heightMaps
      in if mi < length (materialImageRefs M4) then
           (let refs = materialImageRefs M4 ! mi;
                tw1 = add_image_texture E M4 (baseColor refs) True ''texture_diffuse'' (texs, w4);
                tw2 = add_image_texture E M4 (normal refs) False ''texture_normal'' tw1;
                tw3 = add_image_texture E M4 (metallicRoughness refs) False
                        ''texture_metallicRoughness'' tw2
            in (fst tw3, M4, snd tw3))
         else (texs, M4, w4))"

text \<open>\<^verbatim>\<open>std::tolower\<close> on a byte: the letters A to Z move to a to z.\<close>

definition tolower :: "char \<Rightarrow> char" where
  "tolower c =
     (let n = (of_char c :: nat) in if 65 \<le> n \<and> n \<le> 90 then char_of (n + 32) else c)"

text \<open>\<^verbatim>\<open>std::string::find\<close>: the first position where \<open>pat\<close> occurs, \<open>None\<close> for
  \<^verbatim>\<open>npos\<close>.\<close>

fun str_find :: "string \<Rightarrow> string \<Rightarrow> nat option" where
  "str_find [] pat = (if pat = [] then Some 0 else None)"
| "str_find (c # cs) pat =
     (if take (length pat) (c # cs) = pat then Some 0 else map_option Suc (str_find cs pat))"

definition path_has_keyword :: "string \<Rightarrow> bool" where
  "path_has_keyword path =
     (let p = map tolower path
      in str_find p ''glass'' \<noteq> None \<or> str_find p ''alpha'' \<noteq> None
         \<or> str_find p ''transp'' \<noteq> None)"

text \<open>The float literal \<^verbatim>\<open>0.999f\<close> is the real number \<open>16760439 / 2^24\<close>.\<close>

definition float_0_999 :: real where
  "float_0_999 = 16760439 / 16777216"

fun alpha :: "vec4 \<Rightarrow> real" where
  "alpha (r, g, b, a) = a"

definition compute_transparent :: "Model \<Rightarrow> nat \<Rightarrow> Texture list \<Rightarrow> bool" where
  "compute_transparent M mi texs =
     (let isTransparent = False;
          isTransparent1 =
            (if mi < length (materialBaseColorFactors M) then
               (if alpha (materialBaseColorFactors M ! mi) < float_0_999 then True
                else isTransparent)
             else isTransparent)
      in if list_ex (\<lambda>t. path_has_keyword (path_t t)) texs then True else isTransparent1)"

definition compute_centroid :: "Vertex list \<Rightarrow> fault + vec3" where
  "compute_centroid vs =
     (let centroid = fold (\<lambda>v c. vec3_add c (Position v)) vs vec3_zero
      in if vs \<noteq> [] then vec3_div centroid (real (length vs)) else Inr centroid)"

definition processMesh ::
  "env \<Rightarrow> aiMesh \<Rightarrow> aiScene \<Rightarrow> mat4 \<Rightarrow> Model \<Rightarrow> world \<Rightarrow> fault + (Mesh \<times> Model \<times> world)" where
  "processMesh E mesh scene nodeTransform M0 w0 =
     then_f (processVertices (default_Vertex E) nodeTransform mesh) (\<lambda>vs.
     let is = concat (mFaces mesh);
         mi = mMaterialIndex mesh
     in then_f (read_at (Some (mMaterials scene)) mi) (\<lambda>material.
     let (texs, M1, w1) = mesh_textures E material mi M0 w0;
         bcFactor = (if mi < length (materialBaseColorFactors M1)
                     then materialBaseColorFactors M1 ! mi else (1, 1, 1, 1));
         isTransparent = compute_transparent M1 mi texs
     in then_f (compute_centroid vs) (\<lambda>c.
     let matMetal = (if mi < length (materialMetallicFactors M1)
                     then materialMetallicFactors M1 ! mi else 1);
         matRough = (if mi < length (materialRoughnessFactors M1)
                     then materialRoughnessFactors M1 ! mi else 1);
         (m, g) = Mesh_ctor vs is texs bcFactor isTransparent matMetal matRough (gl w1)
     in Inr (m\<lparr>centroid := c\<rparr>, M1, w1\<lparr>gl := g\<rparr>))))"

section \<open>processNode (model.h)\<close>

text \<open>\<^verbatim>\<open>aiMatToGlm\<close>: row \<open>r\<close>, column \<open>c\<close> of the Assimp matrix goes to \<^verbatim>\<open>out[c][r]\<close>.\<close>

fun aiMatToGlm :: "aiMatrix4x4 \<Rightarrow> mat4" where
  "aiMatToGlm ((a1, a2, a3, a4), (b1, b2, b3, b4), (c1, c2, c3, c4), (d1, d2, d3, d4)) =
     ((a1, b1, c1, d1), (a2, b2, c2, d2), (a3, b3, c3, d3), (a4, b4, c4, d4))"

text \<open>The loop over the meshes of one node: each is looked up in the scene, processed
  and appended to \<^verbatim>\<open>meshes\<close>.\<close>

fun processNodeMeshes ::
  "env \<Rightarrow> aiScene \<Rightarrow> mat4 \<Rightarrow> nat list \<Rightarrow> Model \<Rightarrow> world \<Rightarrow> fault + (Model \<times> world)" where
  "processNodeMeshes E scene nodeTransform [] M w = Inr (M, w)"
| "processNodeMeshes E scene nodeTransform (k # ks) M w =
     then_f (read_at (Some (scene_mMeshes scene)) k) (\<lambda>mesh.
     then_f (processMesh E mesh scene nodeTransform M w) (\<lambda>(m, M', w').
       processNodeMeshes E scene nodeTransform ks (M'\<lparr>meshes := meshes M' @ [m]\<rparr>) w'))"

function processNode ::
  "env \<Rightarrow> aiScene \<Rightarrow> aiNode \<Rightarrow> mat4 \<Rightarrow> Model \<Rightarrow> world \<Rightarrow> fault + (Model \<times> world)"
and processChildren ::
  "env \<Rightarrow> aiScene \<Rightarrow> aiNode list \<Rightarrow> mat4 \<Rightarrow> Model \<Rightarrow> world \<Rightarrow> fault + (Model \<times> world)" where
  "processNode E scene (aiNode t ms cs) parentTransform M w =
     (let nodeTransform = mat4_mul parentTransform (aiMatToGlm t)
      in case processNodeMeshes E scene nodeTransform ms M w of
           Inl e \<Rightarrow> Inl e
         | Inr (M', w') \<Rightarrow> processChildren E scene cs nodeTransform M' w')"
| "processChildren E scene [] nodeTransform M w = Inr (M, w)"
| "processChildren E scene (c # cs) nodeTransform M w =
     (case processNode E scene c nodeTransform M w of
        Inl e \<Rightarrow> Inl e
      | Inr (M', w') \<Rightarrow> processChildren E scene cs nodeTransform M' w')"
  by pat_completeness auto
termination
  by (relation "measure (\<lambda>x. case x of
          Inl (E, scene, n, r) \<Rightarrow> 2 * size n
        | Inr (E, scene, cs, r) \<Rightarrow> 2 * size_list size cs + 1)") auto

section \<open>loadModel: the glTF JSON pass (model.h)\<close>

text \<open>
  \<^verbatim>\<open>x.contains(key)\<close> followed by \<^verbatim>\<open>x[key]\<close>: the member of an object, \<open>None\<close> when
  \<open>x\<close> is not an object or has no such key.
\<close>

definition member_j :: "json \<Rightarrow> string \<Rightarrow> json option" where
  "member_j x key = (case x of JObject ms \<Rightarrow> map_of ms key | _ \<Rightarrow> None)"

text \<open>\<^verbatim>\<open>a[i]\<close> on an array: an index past the end yields null.\<close>

definition elem_j :: "json list \<Rightarrow> nat \<Rightarrow> json" where
  "elem_j xs i = (if i < length xs then xs ! i else JNull)"

text \<open>
  The conversion of a JSON number (an integer or a double) to \<^verbatim>\<open>float\<close>: the nearest
  single-precision number, ties to the even significand. A number in the binade
  \<open>[2^e, 2^(e+1))\<close> has float neighbours \<open>2^(e-23)\<close> apart (\<open>2^(-149)\<close> below
  \<open>2^(-126)\<close>). A number that rounds beyond the largest float has no float value, and its
  conversion is undefined in C++; \<open>float_round\<close> is not meant for it.
\<close>

definition round_half_even :: "real \<Rightarrow> int" where
  "round_half_even q =
     (let f = \<lfloor>q\<rfloor>; r = q - of_int f
      in if r < 1 / 2 then f else if 1 / 2 < r then f + 1 else if even f then f else f + 1)"

definition float_round :: "real \<Rightarrow> real" where
  "float_round x =
     (if x = 0 then 0
      else (let e = max \<lfloor>log 2 \<bar>x\<bar>\<rfloor> (- 126);
                ulp = 2 powr (of_int e - 23)
            in of_int (round_half_even (x / ulp)) * ulp))"

text \<open>
  \<^verbatim>\<open>get<T>()\<close>: \<open>None\<close> is the type error the library throws. Arithmetic targets accept
  integers, floating-point numbers and booleans; \<^verbatim>\<open>float\<close> rounds, \<^verbatim>\<open>int\<close> keeps the low
  32 bits of an integer and the integral part of a floating-point number.
\<close>

definition get_string :: "json \<Rightarrow> string option" where
  "get_string x = (case x of JString s \<Rightarrow> Some s | _ \<Rightarrow> None)"

definition get_float :: "json \<Rightarrow> real option" where
  "get_float x =
     (case x of
        JInt n \<Rightarrow> Some (float_round (real_of_int n))
      | JFloat r \<Rightarrow> Some (float_round r)
      | JBool b \<Rightarrow> Some (if b then 1 else 0)
      | _ \<Rightarrow> None)"

definition get_int :: "json \<Rightarrow> int option" where
  "get_int x =
     (case x of
        JInt n \<Rightarrow> Some (sint (word_of_int n :: 32 word))
      | JFloat r \<Rightarrow> Some (if 0 \<le> r then \<lfloor>r\<rfloor> else \<lceil>r\<rceil>)
      | JBool b \<Rightarrow> Some (if b then 1 else 0)
      | _ \<Rightarrow> None)"

text \<open>
  Everything inside the \<^verbatim>\<open>try\<close> block works on the members of the model; an exception
  leaves them as they are at that moment and \<^verbatim>\<open>catch (...)\<close> swallows it. A step
  returns the model together with \<open>True\<close> when it completed and \<open>False\<close> when it threw.
\<close>

type_synonym step = "Model \<Rightarrow> bool \<times> Model"

definition seq :: "step \<Rightarrow> step \<Rightarrow> step" where
  "seq f g M = (case f M of (ok, M') \<Rightarrow> if ok then g M' else (False, M'))"

definition skip :: step where
  "skip M = (True, M)"

definition throw :: step where
  "throw M = (False, M)"

text \<open>The loop over \<^verbatim>\<open>j["images"]\<close>.\<close>

fun parse_images :: "json list \<Rightarrow> step" where
  "parse_images [] M = (True, M)"
| "parse_images (img # imgs) M =
     (case member_j img ''uri'' of
        Some u \<Rightarrow>
          (case get_string u of
             None \<Rightarrow> (False, M)
           | Some uri \<Rightarrow>
               parse_images imgs
                 (M\<lparr>imageUris := imageUris M @ [uri],
                    imageTransforms := imageTransforms M @ [UVTransform_default]\<rparr>))
      | None \<Rightarrow>
          parse_images imgs
            (M\<lparr>imageUris := imageUris M @ [[]],
               imageTransforms := imageTransforms M @ [UVTransform_default]\<rparr>))"

text \<open>
  Reading a \<^verbatim>\<open>KHR_texture_transform\<close> object into a local \<^verbatim>\<open>UVTransform\<close>; \<open>None\<close>
  when one of the reads throws.
\<close>

definition read_pair :: "json \<Rightarrow> string \<Rightarrow> vec2 \<Rightarrow> vec2 option" where
  "read_pair t key dflt =
     (case member_j t key of
        Some (JArray xs) \<Rightarrow>
          (case get_float (elem_j xs 0) of
             None \<Rightarrow> None
           | Some x \<Rightarrow> (case get_float (elem_j xs 1) of None \<Rightarrow> None | Some y \<Rightarrow> Some (x, y)))
      | _ \<Rightarrow> Some dflt)"

definition read_transform :: "json \<Rightarrow> UVTransform option" where
  "read_transform t =
     (case read_pair t ''offset'' (offset UVTransform_default) of
        None \<Rightarrow> None
      | Some off \<Rightarrow>
          (case read_pair t ''scale'' (scale UVTransform_default) of
             None \<Rightarrow> None
           | Some sc \<Rightarrow>
               (case member_j t ''rotation'' of
                  None \<Rightarrow> Some \<lparr>offset = off, scale = sc, rotation = rotation UVTransform_default\<rparr>
                | Some r \<Rightarrow>
                    (case get_float r of
                       None \<Rightarrow> None
                     | Some rot \<Rightarrow> Some \<lparr>offset = off, scale = sc, rotation = rot\<rparr>))))"

text \<open>
  The transform of a texture reference \<open>tr\<close> whose image index \<open>ix\<close> has just been
  stored: read when the extension is present, stored when the index is inside
  \<^verbatim>\<open>imageTransforms\<close>.
\<close>

definition store_transform :: "json \<Rightarrow> int \<Rightarrow> step" where
  "store_transform tr ix M =
     (case Option.bind (member_j tr ''extensions'') (\<lambda>ex. member_j ex ''KHR_texture_transform'') of
        None \<Rightarrow> (True, M)
      | Some t \<Rightarrow>
          (case read_transform t of
             None \<Rightarrow> (False, M)
           | Some ut \<Rightarrow>
               if 0 \<le> ix \<and> ix < int (length (imageTransforms M))
               then (True, M\<lparr>imageTransforms := (imageTransforms M)[nat ix := ut]\<rparr>)
               else (True, M)))"

definition pbr_of :: "json \<Rightarrow> json option" where
  "pbr_of mat = member_j mat ''pbrMetallicRoughness''"

definition step_baseColorFactor :: "nat \<Rightarrow> json \<Rightarrow> step" where
  "step_baseColorFactor mi mat M =
     (case Option.bind (pbr_of mat) (\<lambda>pbr. member_j pbr ''baseColorFactor'') of
        Some (JArray f) \<Rightarrow>
          if 4 \<le> length f then
            (case (get_float (elem_j f 0), get_float (elem_j f 1),
                   get_float (elem_j f 2), get_float (elem_j f 3)) of
               (Some r, Some g, Some b, Some a) \<Rightarrow>
                 (True, M\<lparr>materialBaseColorFactors :=
                            (materialBaseColorFactors M)[mi := (r, g, b, a)]\<rparr>)
             | _ \<Rightarrow> (False, M))
          else (True, M)
      | _ \<Rightarrow> (True, M))"

definition step_metallicFactor :: "nat \<Rightarrow> json \<Rightarrow> step" where
  "step_metallicFactor mi mat M =
     (case Option.bind (pbr_of mat) (\<lambda>pbr. member_j pbr ''metallicFactor'') of
        None \<Rightarrow> (True, M)
      | Some v \<Rightarrow>
          (case get_float v of
             None \<Rightarrow> (False, M)
           | Some x \<Rightarrow> (True, M\<lparr>materialMetallicFactors := (materialMetallicFactors M)[mi := x]\<rparr>)))"

definition step_roughnessFactor :: "nat \<Rightarrow> json \<Rightarrow> step" where
  "step_roughnessFactor mi mat M =
     (case Option.bind (pbr_of mat) (\<lambda>pbr. member_j pbr ''roughnessFactor'') of
        None \<Rightarrow> (True, M)
      | Some v \<Rightarrow>
          (case get_float v of
             None \<Rightarrow> (False, M)
           | Some x \<Rightarrow> (True, M\<lparr>materialRoughnessFactors := (materialRoughnessFactors M)[mi := x]\<rparr>)))"

definition step_baseColorTexture :: "nat \<Rightarrow> json \<Rightarrow> step" where
  "step_baseColorTexture mi mat M =
     (case Option.bind (pbr_of mat) (\<lambda>pbr. member_j pbr ''baseColorTexture'') of
        None \<Rightarrow> (True, M)
      | Some bct \<Rightarrow>
          (case member_j bct ''index'' of
             None \<Rightarrow> (True, M)
           | Some i \<Rightarrow>
               (case get_int i of
                  None \<Rightarrow> (False, M)
                | Some ix \<Rightarrow>
                    store_transform bct ix
                      (M\<lparr>materialImageRefs :=
                           (materialImageRefs M)[mi := (materialImageRefs M ! mi)\<lparr>baseColor := ix\<rparr>]\<rparr>))))"

definition step_metallicRoughnessTexture :: "nat \<Rightarrow> json \<Rightarrow> step" where
  "step_metallicRoughnessTexture mi mat M =
     (case Option.bind (pbr_of mat) (\<lambda>pbr. member_j pbr ''metallicRoughnessTexture'') of
        None \<Rightarrow> (True, M)
      | Some mrt \<Rightarrow>
          (case member_j mrt ''index'' of
             None \<Rightarrow> (True, M)
           | Some i \<Rightarrow>
               (case get_int i of
                  None \<Rightarrow> (False, M)
                | Some ix \<Rightarrow>
                    (True, M\<lparr>materialImageRefs :=
                               (materialImageRefs M)[mi := (materialImageRefs M ! mi)
                                                            \<lparr>metallicRoughness := ix\<rparr>]\<rparr>))))"

definition step_normalTexture :: "nat \<Rightarrow> json \<Rightarrow> step" where
  "step_normalTexture mi mat M =
     (case member_j mat ''normalTexture'' of
        None \<Rightarrow> (True, M)
      | Some nt \<Rightarrow>
          (case member_j nt ''index'' of
             None \<Rightarrow> (True, M)
           | Some i \<Rightarrow>
               (case get_int i of
                  None \<Rightarrow> (False, M)
                | Some ix \<Rightarrow>
                    store_transform nt ix
                      (M\<lparr>materialImageRefs :=
                           (materialImageRefs M)[mi := (materialImageRefs M ! mi)\<lparr>normal := ix\<rparr>]\<rparr>))))"

definition parse_material :: "nat \<Rightarrow> json \<Rightarrow> step" where
  "parse_material mi mat =
     seq (step_baseColorFactor mi mat)
    (seq (step_metallicFactor mi mat)
    (seq (step_roughnessFactor mi mat)
    (seq (step_baseColorTexture mi mat)
    (seq (step_metallicRoughnessTexture mi mat)
         (step_normalTexture mi mat)))))"

text \<open>The loop over \<^verbatim>\<open>j["materials"]\<close>, from index \<open>mi\<close> on.\<close>

fun parse_materials :: "nat \<Rightarrow> json list \<Rightarrow> step" where
  "parse_materials mi [] M = (True, M)"
| "parse_materials mi (mat # mats) M =
     (case parse_material mi mat M of
        (ok, M') \<Rightarrow> if ok then parse_materials (Suc mi) mats M' else (False, M'))"

text \<open>\<^verbatim>\<open>std::vector::resize(n, v)\<close>.\<close>

definition resize :: "nat \<Rightarrow> 'a \<Rightarrow> 'a list \<Rightarrow> 'a list" where
  "resize n v xs = take n xs @ replicate (n - length xs) v"

definition parse_gltf :: "json \<Rightarrow> step" where
  "parse_gltf j =
     seq (\<lambda>M. case member_j j ''images'' of
                 Some (JArray imgs) \<Rightarrow> parse_images imgs M
               | _ \<Rightarrow> (True, M))
         (\<lambda>M. case member_j j ''materials'' of
                 Some (JArray mats) \<Rightarrow>
                   parse_materials 0 mats
                     (M\<lparr>materialImageRefs := resize (length mats) MatRefs_default (materialImageRefs M),
                        materialBaseColorFactors :=
                          resize (length mats) (1, 1, 1, 1) (materialBaseColorFactors M),
                        materialMetallicFactors := resize (length mats) 1 (materialMetallicFactors M),
                        materialRoughnessFactors := resize (length mats) 1 (materialRoughnessFactors M)\<rparr>)
               | _ \<Rightarrow> (True, M))"

section \<open>loadModel and the constructor (model.h)\<close>

text \<open>\<^verbatim>\<open>path.find_last_of('/')\<close> and \<^verbatim>\<open>path.substr(0, pos)\<close>; with no slash the
  position is \<^verbatim>\<open>npos\<close> and the substring is the whole path.\<close>

fun find_last_of :: "string \<Rightarrow> char \<Rightarrow> nat option" where
  "find_last_of [] c = None"
| "find_last_of (x # xs) c =
     (case find_last_of xs c of
        Some k \<Rightarrow> Some (Suc k)
      | None \<Rightarrow> if x = c then Some 0 else None)"

definition directory_of :: "string \<Rightarrow> string" where
  "directory_of path =
     (case find_last_of path CHR ''/'' of None \<Rightarrow> path | Some k \<Rightarrow> take k path)"

text \<open>
  The error check \<^verbatim>\<open>!scene || scene->mFlags & AI_SCENE_FLAGS_INCOMPLETE ||
  !scene->mRootNode\<close>: the scene and its root node when the check passes.
\<close>

definition usable_scene :: "aiScene option \<Rightarrow> (aiScene \<times> aiNode) option" where
  "usable_scene so =
     (case so of
        None \<Rightarrow> None
      | Some scene \<Rightarrow>
          if mFlags scene AND AI_SCENE_FLAGS_INCOMPLETE \<noteq> 0 then None
          else (case mRootNode scene of None \<Rightarrow> None | Some rootNode \<Rightarrow> Some (scene, rootNode)))"

text \<open>
  \<^verbatim>\<open>loadModel\<close> returns \<^verbatim>\<open>void\<close>: its result is the model and the world it leaves.
  When the check fails it prints the importer's error and returns at once.
\<close>

definition loadModel :: "env \<Rightarrow> string \<Rightarrow> Model \<Rightarrow> world \<Rightarrow> fault + (Model \<times> world)" where
  "loadModel E path M w =
     (case ReadFile E path of (so, err) \<Rightarrow>
        (case usable_scene so of
           None \<Rightarrow> Inr (M, w\<lparr>console := console w @ [''ERROR::ASSIMP:: '' @ err]\<rparr>)
         | Some (scene, rootNode) \<Rightarrow>
             (let M1 = M\<lparr>directory := directory_of path\<rparr>;
                  M2 = (case gltf_json E path of
                          None \<Rightarrow> M1
                        | Some j \<Rightarrow> snd (parse_gltf j M1))
              in processNode E scene rootNode mat4_identity M2 w)))"

text \<open>The constructor \<^verbatim>\<open>Model(path, gamma)\<close>: all containers empty, then \<^verbatim>\<open>loadModel\<close>.\<close>

definition Model_empty :: "bool \<Rightarrow> Model" where
  "Model_empty gamma =
     \<lparr>textures_loaded = [], meshes = [], directory = [], gammaCorrection = gamma,
      imageTransforms = [], imageUris = [], materialImageRefs = [],
      materialBaseColorFactors = [], materialMetallicFactors = [],
      materialRoughnessFactors = []\<rparr>"

definition Model_ctor :: "env \<Rightarrow> string \<Rightarrow> bool \<Rightarrow> world \<Rightarrow> fault + (Model \<times> world)" where
  "Model_ctor E path gamma w = loadModel E path (Model_empty gamma) w"

section \<open>std::sort (GNU libstdc++)\<close>

text \<open>
  \<^verbatim>\<open>std::sort\<close> belongs to the C++ standard library, not to the repository. The standard
  fixes its result only up to the order of equivalent elements, so what a program does
  with ties is decided by the implementation it is built with. This section is the
  implementation of GNU libstdc++ (\<^verbatim>\<open>bits/stl_algo.h\<close>, \<^verbatim>\<open>bits/stl_heap.h\<close>): an
  introsort down to ranges of 16 elements, a heap sort when the recursion gets too deep,
  and one final insertion sort. The array is a list and an iterator is an index into
  it, so the range \<^verbatim>\<open>[first, last)\<close> is a pair of indices; the iterator \<^verbatim>\<open>last\<close> is
  \<open>last_it\<close> and \<^verbatim>\<open>cut\<close> is \<open>cut_it\<close> here. The loops that libstdc++ calls unguarded stop
  only at an element that the comparator rejects; one that leaves the array reads
  outside it, which is the fault \<open>OutOfRange\<close>.
\<close>







































section \<open>Model::Draw (model.h)\<close>








section \<open>Specification vocabulary and sample inputs\<close>




text \<open>The first texture of a kind in a mesh's texture list.\<close>

definition first_of_kind :: "string \<Rightarrow> Texture list \<Rightarrow> Texture option" where
  "first_of_kind kind ts = find (\<lambda>T. type_t T = kind) ts"

text \<open>The bindings a draw call was issued under: the last entry of the draw log.\<close>

definition last_draw :: "gl_state \<Rightarrow> draw_call" where
  "last_draw g = last (draw_calls g)"

text \<open>A program that has every uniform the mesh may set, and a mesh around a given
  texture list.\<close>

definition full_shader :: Shader where
  "full_shader = \<lparr>ID = 3, active_uniform = (\<lambda>_. True)\<rparr>"

definition mesh_with :: "Texture list \<Rightarrow> Mesh" where
  "mesh_with ts =
     \<lparr>vertices = [], indices = [0, 1, 2], textures = ts, VAO = 1, transparent = False,
      baseColorFactor = (1, 1, 1, 1), metallicFactor = 1, roughnessFactor = 1,
      centroid = vec3_zero, VBO = 1, EBO = 2\<rparr>"

text \<open>One texture of each of the four kinds the draw comment names.\<close>

definition four_kinds :: "Texture list" where
  "four_kinds =
     [new_Texture 5 ''texture_diffuse'' ''d.png'', new_Texture 6 ''texture_normal'' ''n.png'',
      new_Texture 7 ''texture_height'' ''h.png'',
      new_Texture 8 ''texture_metallicRoughness'' ''mr.png'']"

text \<open>Sample assets: the identity node matrix, a material without textures, a mesh
  without vertices in a one-node scene.\<close>

definition aiIdentity :: aiMatrix4x4 where
  "aiIdentity = ((1, 0, 0, 0), (0, 1, 0, 0), (0, 0, 1, 0), (0, 0, 0, 1))"

definition no_textures :: aiMaterial where
  "no_textures = (\<lambda>_. [])"

definition empty_mesh :: aiMesh where
  "empty_mesh =
     \<lparr>mName = ''empty'', mVertices = [], mNormals = None, mTextureCoords0 = None,
      mTangents = None, mBitangents = None, mFaces = [], mMaterialIndex = 0\<rparr>"

definition empty_mesh_scene :: aiScene where
  "empty_mesh_scene =
     \<lparr>mFlags = 0, mRootNode = Some (aiNode aiIdentity [0] []),
      scene_mMeshes = [empty_mesh], mMaterials = [no_textures]\<rparr>"


text \<open>Sample environments: an asset that cannot be opened, a scene flagged incomplete,
  an image decoder that always succeeds, a material with one diffuse texture.\<close>

definition zero_Vertex :: Vertex where
  "zero_Vertex =
     \<lparr>Position = vec3_zero, Normal = Finite vec3_zero, TexCoords = (0, 0),
      Tangent = Finite vec3_zero, Bitangent = Finite vec3_zero,
      m_BoneIDs = [0, 0, 0, 0], m_Weights = [0, 0, 0, 0]\<rparr>"

definition missing_file_env :: env where
  "missing_file_env =
     \<lparr>ReadFile = (\<lambda>_. (None, ''Unable to open file'')), gltf_json = (\<lambda>_. None),
      stbi_load = (\<lambda>_. None), default_Vertex = zero_Vertex\<rparr>"

definition incomplete_scene :: aiScene where
  "incomplete_scene =
     \<lparr>mFlags = 1, mRootNode = Some (aiNode aiIdentity [] []),
      scene_mMeshes = [], mMaterials = []\<rparr>"

definition incomplete_env :: env where
  "incomplete_env =
     \<lparr>ReadFile = (\<lambda>_. (Some incomplete_scene, ''incomplete'')), gltf_json = (\<lambda>_. None),
      stbi_load = (\<lambda>_. None), default_Vertex = zero_Vertex\<rparr>"

definition one_pixel :: image where
  "one_pixel = \<lparr>img_width = 1, img_height = 1, img_components = 3, img_data = [255, 0, 0]\<rparr>"

definition decoding_env :: env where
  "decoding_env =
     \<lparr>ReadFile = (\<lambda>_. (None, ''Unable to open file'')), gltf_json = (\<lambda>_. None),
      stbi_load = (\<lambda>_. Some one_pixel), default_Vertex = zero_Vertex\<rparr>"

definition one_diffuse_material :: aiMaterial where
  "one_diffuse_material = (\<lambda>ty. if ty = aiTextureType_DIFFUSE then [''a.png''] else [])"

text \<open>
  A triangle with normals (one of them the zero vector) and no texture coordinates; a
  glTF document whose only material has base-color alpha \<open>2047/2048\<close>; a material
  whose diffuse texture is named like glass. \<open>imported_meshes\<close> reads the mesh list
  off the result of an import (empty when the import failed).
\<close>

definition triangle :: aiMesh where
  "triangle =
     \<lparr>mName = ''body'', mVertices = [(0, 0, 0), (3, 0, 0), (0, 3, 0)],
      mNormals = Some [(0, 0, 2), (0, 0, 0), (0, 0, 1)], mTextureCoords0 = None,
      mTangents = None, mBitangents = None, mFaces = [[0, 1, 2]], mMaterialIndex = 0\<rparr>"

definition faint_scene :: aiScene where
  "faint_scene =
     \<lparr>mFlags = 0, mRootNode = Some (aiNode aiIdentity [0] []),
      scene_mMeshes = [triangle], mMaterials = [no_textures]\<rparr>"

definition faint_json :: json where
  "faint_json =
     JObject [(''materials'', JArray [JObject [(''pbrMetallicRoughness'',
        JObject [(''baseColorFactor'', JArray [JInt 1, JInt 1, JInt 1, JFloat (2047 / 2048)])])]])]"

definition faint_env :: env where
  "faint_env =
     \<lparr>ReadFile = (\<lambda>_. (Some faint_scene, [])), gltf_json = (\<lambda>_. Some faint_json),
      stbi_load = (\<lambda>_. None), default_Vertex = zero_Vertex\<rparr>"

definition imported_meshes :: "fault + (Model \<times> world) \<Rightarrow> Mesh list" where
  "imported_meshes r = (case r of Inl e \<Rightarrow> [] | Inr (M, w) \<Rightarrow> meshes M)"

definition glass_material :: aiMaterial where
  "glass_material = (\<lambda>ty. if ty = aiTextureType_DIFFUSE then [''tex/Glass_Window.PNG''] else [])"

definition glass_scene :: aiScene where
  "glass_scene =
     \<lparr>mFlags = 0, mRootNode = Some (aiNode aiIdentity [0] []),
      scene_mMeshes = [triangle], mMaterials = [glass_material]\<rparr>"










text \<open>
  A glTF asset with two meshes and two materials; both materials name image 0
  (\<open>mr.png\<close>) as their metallic-roughness texture, and the importer reports no texture
  of the four types \<^verbatim>\<open>processMesh\<close> asks it for. \<open>imported_registry\<close> reads
  \<^verbatim>\<open>textures_loaded\<close> off the result of an import.
\<close>

definition imported_registry :: "fault + (Model \<times> world) \<Rightarrow> Texture list" where
  "imported_registry r = (case r of Inl e \<Rightarrow> [] | Inr (M, w) \<Rightarrow> textures_loaded M)"

definition mr_material_json :: json where
  "mr_material_json =
     JObject [(''pbrMetallicRoughness'',
        JObject [(''metallicRoughnessTexture'', JObject [(''index'', JInt 0)])])]"

definition shared_image_json :: json where
  "shared_image_json =
     JObject [(''images'', JArray [JObject [(''uri'', JString ''mr.png'')]]),
              (''materials'', JArray [mr_material_json, mr_material_json])]"

definition shared_image_scene :: aiScene where
  "shared_image_scene =
     \<lparr>mFlags = 0, mRootNode = Some (aiNode aiIdentity [0, 1] []),
      scene_mMeshes = [triangle, triangle\<lparr>mMaterialIndex := 1\<rparr>],
      mMaterials = [no_textures, no_textures]\<rparr>"

definition shared_image_env :: env where
  "shared_image_env =
     \<lparr>ReadFile = (\<lambda>_. (Some shared_image_scene, [])), gltf_json = (\<lambda>_. Some shared_image_json),
      stbi_load = (\<lambda>_. Some one_pixel), default_Vertex = zero_Vertex\<rparr>"

section \<open>Theorems\<close>

subsection \<open>Rounding to float\<close>

text \<open>The numbers 1 and 2047/2048 are floats; the double 0.999 rounds to the float that
  the literal \<^verbatim>\<open>0.999f\<close> denotes.\<close>

lemma floor_log2_half_to_one: "1 / 2 \<le> x \<Longrightarrow> x < 1 \<Longrightarrow> \<lfloor>log 2 x\<rfloor> = - 1"
proof -
  assume a: "1 / 2 \<le> x" "x < 1"
  then have pos: "0 < x" by simp
  have "log 2 x < 0" using a pos by simp
  moreover have "- 1 \<le> log 2 x"
  proof -
    have "log 2 (1 / 2) \<le> log 2 x" using a pos by (simp only: log_le_cancel_iff) 
    moreover have "log 2 (1 / 2) = - 1" by (simp add: log_divide)
    ultimately show ?thesis by simp
  qed
  ultimately show ?thesis by (simp add: floor_eq_iff)
qed

lemma ulp_half: "(2::real) powr (of_int (max (- 1) (- 126)) - 23) = 1 / 16777216"
proof -
  have "(2::real) powr (of_int (max (- 1) (- 126)) - 23) = 2 powr (- 24)" by simp
  also have "\<dots> = 1 / 2 powr 24" by (simp add: powr_minus_divide)
  also have "(2::real) powr 24 = 2 ^ 24" by (simp add: powr_numeral)
  finally show ?thesis by simp
qed

lemma float_round_1: "float_round 1 = 1"
proof -
  have "(2::real) powr (- 23) = 1 / 2 powr 23" by (simp add: powr_minus_divide)
  also have "(2::real) powr 23 = 2 ^ 23" by (simp add: powr_numeral)
  finally have u: "(2::real) powr (- 23) = 1 / 8388608" by simp
  show ?thesis by (simp add: float_round_def Let_def u round_half_even_def)
qed

lemma float_round_2047: "float_round (2047 / 2048) = 2047 / 2048"
proof -
  have e: "\<lfloor>log 2 \<bar>2047 / 2048 :: real\<bar>\<rfloor> = - 1"
    using floor_log2_half_to_one[of "2047 / 2048"] by simp
  show ?thesis
    unfolding float_round_def Let_def e ulp_half
    by (simp add: round_half_even_def)
qed

lemma float_round_0999: "float_round (999 / 1000) = 16760439 / 16777216"
proof -
  have e: "\<lfloor>log 2 \<bar>999 / 1000 :: real\<bar>\<rfloor> = - 1"
    using floor_log2_half_to_one[of "999 / 1000"] by simp
  have q: "(999 / 1000 :: real) / (1 / 16777216) = 16760438 + 98 / 125" by simp
  have fl: "\<lfloor>16760438 + 98 / 125 :: real\<rfloor> = 16760438" by (simp add: floor_eq_iff)
  show ?thesis
    unfolding float_round_def Let_def e ulp_half q round_half_even_def fl
    by simp
qed

subsection \<open>Unfolding the model on sample inputs\<close>

text \<open>The definitions that a concrete run of the texture loader, of \<^verbatim>\<open>processMesh\<close>
  and of the whole import unfolds.\<close>

lemmas texture_eval =
  update_current_texture_def current_texture_def glBindTexture_def
  glTexImage2D_def glGenerateMipmap_def glTexParameters_def new_tex_object_def

lemmas processMesh_eval =
  then_f_def read_at_def processMesh_def processVertices_def
  processVertex_def HasNormals_def mesh_textures_def loadMaterialTextures_def add_image_texture_def
  compute_transparent_def compute_centroid_def vec3_div_def vec3_zero_def Mesh_ctor_def setupMesh_def
  glGenVertexArrays_def glGenBuffers_def glBindVertexArray_def glBindArrayBuffer_def
  glBindElementBuffer_def glBufferVertexData_def glBufferIndexData_def element_buffer_def
  normalize3_def length3_def Let_def world_init_def gl_init_def
  TextureFromFile_def glGenTextures_def new_Texture_def c_str_def float_0_999_def
  mat4_identity_def mat3_identity_def Model_empty_def

lemmas import_eval =
  aiIdentity_def mat4_identity_def mat3_identity_def Model_ctor_def loadModel_def usable_scene_def AI_SCENE_FLAGS_INCOMPLETE_def directory_of_def
  parse_gltf_def seq_def member_j_def Model_empty_def resize_def parse_material_def
  step_baseColorFactor_def step_metallicFactor_def step_roughnessFactor_def step_baseColorTexture_def
  step_metallicRoughnessTexture_def step_normalTexture_def pbr_of_def elem_j_def get_float_def
  float_round_1 float_round_2047
  get_int_def get_string_def store_transform_def MatRefs_default_def UVTransform_default_def
  then_f_def read_at_def processMesh_def processVertices_def
  processVertex_def HasNormals_def mesh_textures_def loadMaterialTextures_def add_image_texture_def
  compute_transparent_def compute_centroid_def vec3_div_def vec3_zero_def Mesh_ctor_def setupMesh_def
  glGenVertexArrays_def glGenBuffers_def glBindVertexArray_def glBindArrayBuffer_def
  glBindElementBuffer_def glBufferVertexData_def glBufferIndexData_def element_buffer_def
  normalize3_def length3_def Let_def world_init_def gl_init_def imported_meshes_def
  TextureFromFile_def glGenTextures_def new_Texture_def c_str_def float_0_999_def


subsection \<open>Procedural sky\<close>

text \<open>
  C9. The direction table of the procedural sky, evaluated at the normalised texel
  coordinates \<open>u = 0\<close>, \<open>v = 0\<close>, gives \<open>(0, 1, 0)\<close> for face 2 (+Y) and
  \<open>(0, 0, 1)\<close> for face 4 (+Z), before normalisation.
\<close>

theorem face_dir_center:
  "face_dir 2 0 0 = Some (0, 1, 0) \<and> face_dir 4 0 0 = Some (0, 0, 1)"
  by (simp add: face_dir_def)

subsection \<open>Mesh::Draw\<close>

lemmas gl_defs =
  glActiveTexture_def glBindTexture_def glUniform_def glUseProgram_def glBindVertexArray_def
  glBindElementBuffer_def glDrawElements_def glDepthMask_def

lemmas unit_defs = UNIT_DIFFUSE_def UNIT_NORMAL_def UNIT_MR_def UNIT_HEIGHT_def

lemma bind_sampler_simps:
  "bound_2d (bind_sampler sh name u T g) = (bound_2d g)(u := id_t T)"
  "current_program (bind_sampler sh name u T g) = current_program g"
  "draw_calls (bind_sampler sh name u T g) = draw_calls g"
  "depth_mask (bind_sampler sh name u T g) = depth_mask g"
  by (simp_all add: bind_sampler_def gl_defs Let_def split: option.splits)

lemma bind_textures_flags:
  "fst (bind_textures sh Ts (d, n, r) g) =
     (d \<or> first_of_kind ''texture_diffuse'' Ts \<noteq> None,
      n \<or> first_of_kind ''texture_normal'' Ts \<noteq> None,
      r \<or> first_of_kind ''texture_metallicRoughness'' Ts \<noteq> None)"
  unfolding first_of_kind_def by (induction Ts arbitrary: d n r g) auto

lemma bind_textures_unit0:
  "bound_2d (snd (bind_textures sh Ts (d, n, r) g)) 0 =
     (case first_of_kind ''texture_diffuse'' Ts of
        Some T \<Rightarrow> if d then bound_2d g 0 else id_t T
      | None \<Rightarrow> bound_2d g 0)"
  unfolding first_of_kind_def
  by (induction Ts arbitrary: d n r g)
     (auto simp: bind_sampler_simps unit_defs split: option.splits)

lemma bind_textures_unit1:
  "bound_2d (snd (bind_textures sh Ts (d, n, r) g)) (Suc 0) =
     (case first_of_kind ''texture_normal'' Ts of
        Some T \<Rightarrow> if n then bound_2d g (Suc 0) else id_t T
      | None \<Rightarrow> bound_2d g (Suc 0))"
  unfolding first_of_kind_def
  by (induction Ts arbitrary: d n r g)
     (auto simp: bind_sampler_simps unit_defs split: option.splits)

lemma bind_textures_unit2:
  "bound_2d (snd (bind_textures sh Ts (d, n, r) g)) 2 =
     (case first_of_kind ''texture_metallicRoughness'' Ts of
        Some T \<Rightarrow> if r then bound_2d g 2 else id_t T
      | None \<Rightarrow> bound_2d g 2)"
  unfolding first_of_kind_def
  by (induction Ts arbitrary: d n r g)
     (auto simp: bind_sampler_simps unit_defs split: option.splits)

lemma bind_textures_other_units:
  "3 \<le> u \<Longrightarrow> bound_2d (snd (bind_textures sh Ts (d, n, r) g)) u = bound_2d g u"
  by (induction Ts arbitrary: d n r g) (auto simp: bind_sampler_simps unit_defs)

lemma bind_textures_frame:
  "draw_calls (snd (bind_textures sh Ts (d, n, r) g)) = draw_calls g"
  "current_program (snd (bind_textures sh Ts (d, n, r) g)) = current_program g"
  "depth_mask (snd (bind_textures sh Ts (d, n, r) g)) = depth_mask g"
  by (induction Ts arbitrary: d n r g) (auto simp: bind_sampler_simps unit_defs)

lemma set_flag_simps:
  "bound_2d (set_flag sh name b g) = bound_2d g"
  "current_program (set_flag sh name b g) = current_program g"
  "draw_calls (set_flag sh name b g) = draw_calls g"
  "depth_mask (set_flag sh name b g) = depth_mask g"
  "uniforms (set_flag sh name b g) =
     (if active_uniform sh name
      then (uniforms g)((current_program g, name) := Some (U1i (if b then 1 else 0)))
      else uniforms g)"
  by (simp_all add: set_flag_def glGetUniformLocation_def gl_defs Let_def)

lemma set_float_simps:
  "bound_2d (set_float sh name x g) = bound_2d g"
  "current_program (set_float sh name x g) = current_program g"
  "draw_calls (set_float sh name x g) = draw_calls g"
  "depth_mask (set_float sh name x g) = depth_mask g"
  "uniforms (set_float sh name x g) =
     (if active_uniform sh name then (uniforms g)((current_program g, name) := Some (U1f x))
      else uniforms g)"
  by (simp_all add: set_float_def glGetUniformLocation_def gl_defs Let_def)

lemma first_of_kind_absent:
  "(\<forall>T \<in> set Ts. type_t T \<noteq> kind) \<Longrightarrow> first_of_kind kind Ts = None"
  unfolding first_of_kind_def by (induction Ts) auto

lemmas Mesh_Draw_unfold =
  Mesh_Draw_def Let_def case_prod_beta bind_textures_flags bind_textures_frame
  bind_sampler_simps set_flag_simps set_float_simps gl_defs use_def glGetUniformLocation_def
  last_draw_def

text \<open>
  C8. A mesh whose texture list is not empty and holds no texture tagged
  \<open>texture_diffuse\<close>: \<^verbatim>\<open>Draw\<close> issues one draw call, and at that call unit 0 holds the
  first texture of the list, whatever its kind, and the \<open>hasBaseColor\<close> uniform of the
  shader (when the program has it) is 1.
\<close>

theorem Draw_fallback_texture:
  assumes "textures m = T0 # Ts"
      and "\<forall>T \<in> set (textures m). type_t T \<noteq> ''texture_diffuse''"
  shows "draw_calls (Mesh_Draw shader m g) = draw_calls g @ [last_draw (Mesh_Draw shader m g)]
       \<and> dc_units (last_draw (Mesh_Draw shader m g)) 0 = id_t T0
       \<and> (active_uniform shader ''hasBaseColor'' \<longrightarrow>
            dc_uniforms (last_draw (Mesh_Draw shader m g)) (ID shader, ''hasBaseColor'')
              = Some (U1i 1))"
proof -
  have nf: "first_of_kind ''texture_diffuse'' (textures m) = None"
    using assms(2) by (rule first_of_kind_absent)
  show ?thesis
    using assms(1) nf
    by (simp add: Mesh_Draw_unfold del: bind_textures.simps split: prod.splits)
qed

theorem Draw_fallback_texture_witness:
  "textures (mesh_with [new_Texture 9 ''texture_normal'' ''n.png''])
     = new_Texture 9 ''texture_normal'' ''n.png'' # []
   \<and> map type_t (textures (mesh_with [new_Texture 9 ''texture_normal'' ''n.png'']))
       = [''texture_normal'']
   \<and> active_uniform full_shader ''hasBaseColor''
   \<and> dc_units (last_draw (Mesh_Draw full_shader
         (mesh_with [new_Texture 9 ''texture_normal'' ''n.png'']) gl_init)) 0 = 9
   \<and> dc_uniforms (last_draw (Mesh_Draw full_shader
         (mesh_with [new_Texture 9 ''texture_normal'' ''n.png'']) gl_init)) (3, ''hasBaseColor'')
       = Some (U1i 1)"
  using Draw_fallback_texture [of "mesh_with [new_Texture 9 ''texture_normal'' ''n.png'']"
      "new_Texture 9 ''texture_normal'' ''n.png''" "[]" full_shader gl_init]
  by (simp add: mesh_with_def new_Texture_def full_shader_def)

text \<open>
  C6, as the code has it. \<^verbatim>\<open>Draw\<close> binds by kind to three units: at the draw call the
  first \<open>texture_diffuse\<close> texture of the list is at unit 0, the first
  \<open>texture_normal\<close> at unit 1, the first \<open>texture_metallicRoughness\<close> at unit 2.
  Units 3 and up are left as they were: no texture is bound for being a height (or
  specular) texture.
\<close>

theorem Draw_binds_first_of_kind:
  "(first_of_kind ''texture_diffuse'' (textures m) = Some T \<longrightarrow>
      dc_units (last_draw (Mesh_Draw shader m g)) UNIT_DIFFUSE = id_t T)
 \<and> (first_of_kind ''texture_normal'' (textures m) = Some T \<longrightarrow>
      dc_units (last_draw (Mesh_Draw shader m g)) UNIT_NORMAL = id_t T)
 \<and> (first_of_kind ''texture_metallicRoughness'' (textures m) = Some T \<longrightarrow>
      dc_units (last_draw (Mesh_Draw shader m g)) UNIT_MR = id_t T)
 \<and> (\<forall>u. 3 \<le> u \<longrightarrow> dc_units (last_draw (Mesh_Draw shader m g)) u = bound_2d g u)"
  by (cases "textures m")
     (simp_all add: Mesh_Draw_unfold unit_defs bind_textures_unit0 bind_textures_unit1
        bind_textures_unit2 bind_textures_other_units
        del: bind_textures.simps split: prod.splits)

theorem Draw_binds_first_of_kind_witness:
  "first_of_kind ''texture_diffuse'' (textures (mesh_with four_kinds)) = Some (new_Texture 5 ''texture_diffuse'' ''d.png'')
 \<and> first_of_kind ''texture_normal'' (textures (mesh_with four_kinds)) = Some (new_Texture 6 ''texture_normal'' ''n.png'')
 \<and> first_of_kind ''texture_metallicRoughness'' (textures (mesh_with four_kinds)) = Some (new_Texture 8 ''texture_metallicRoughness'' ''mr.png'')
 \<and> dc_units (last_draw (Mesh_Draw full_shader (mesh_with four_kinds) gl_init)) 0 = 5
 \<and> dc_units (last_draw (Mesh_Draw full_shader (mesh_with four_kinds) gl_init)) 1 = 6
 \<and> dc_units (last_draw (Mesh_Draw full_shader (mesh_with four_kinds) gl_init)) 2 = 8
 \<and> dc_units (last_draw (Mesh_Draw full_shader (mesh_with four_kinds) gl_init)) 3 = 0"
  using Draw_binds_first_of_kind [of "mesh_with four_kinds" "new_Texture 5 ''texture_diffuse'' ''d.png''" full_shader gl_init]
    Draw_binds_first_of_kind [of "mesh_with four_kinds" "new_Texture 6 ''texture_normal'' ''n.png''" full_shader gl_init]
    Draw_binds_first_of_kind [of "mesh_with four_kinds" "new_Texture 8 ''texture_metallicRoughness'' ''mr.png''" full_shader gl_init]
  by (simp add: mesh_with_def four_kinds_def first_of_kind_def new_Texture_def unit_defs gl_init_def)

text \<open>
  C6 as stated fails for the height kind: a mesh whose list holds a \<open>texture_height\<close>
  texture (name 7) is drawn with unit 3 still holding 0.
\<close>

theorem Draw_height_not_bound:
  "type_t (textures (mesh_with four_kinds) ! 2) = ''texture_height''
 \<and> first_of_kind ''texture_height'' (textures (mesh_with four_kinds)) = Some (textures (mesh_with four_kinds) ! 2)
 \<and> id_t (textures (mesh_with four_kinds) ! 2) = 7
 \<and> dc_units (last_draw (Mesh_Draw full_shader (mesh_with four_kinds) gl_init)) UNIT_HEIGHT = 0
 \<and> dc_units (last_draw (Mesh_Draw full_shader (mesh_with four_kinds) gl_init)) UNIT_HEIGHT
      \<noteq> id_t (textures (mesh_with four_kinds) ! 2)"
  by (simp add: mesh_with_def four_kinds_def first_of_kind_def new_Texture_def unit_defs gl_init_def
      Mesh_Draw_unfold)

subsection \<open>Import failure and texture decode failure\<close>

text \<open>
  C2, as the code has it. When \<^verbatim>\<open>ReadFile\<close> returns no scene, or a scene flagged
  incomplete, or one without root node, the constructor prints
  \<^verbatim>\<open>ERROR::ASSIMP:: <error string>\<close> and returns normally with the model as it was
  constructed: no meshes, no loaded textures, GL context untouched. The caller gets
  this empty model, not a failure value.
\<close>

theorem loadModel_unusable_scene:
  assumes "fst (ReadFile E path) = None
         \<or> (\<exists>scene. fst (ReadFile E path) = Some scene
              \<and> (mFlags scene AND AI_SCENE_FLAGS_INCOMPLETE \<noteq> 0 \<or> mRootNode scene = None))"
  shows "Model_ctor E path gamma w =
           Inr (Model_empty gamma,
                w\<lparr>console := console w @ [''ERROR::ASSIMP:: '' @ snd (ReadFile E path)]\<rparr>)
       \<and> meshes (Model_empty gamma) = [] \<and> textures_loaded (Model_empty gamma) = []"
proof -
  have "usable_scene (fst (ReadFile E path)) = None"
    using assms by (auto simp: usable_scene_def split: option.splits)
  then show ?thesis
    by (cases "ReadFile E path") (simp add: Model_ctor_def loadModel_def Model_empty_def)
qed

theorem loadModel_unusable_scene_witness:
  "(\<exists>scene. fst (ReadFile incomplete_env ''car/scene.gltf'') = Some scene
        \<and> (mFlags scene AND AI_SCENE_FLAGS_INCOMPLETE \<noteq> 0 \<or> mRootNode scene = None))
 \<and> Model_ctor incomplete_env ''car/scene.gltf'' True world_init =
      Inr (Model_empty True, \<lparr>gl = gl_init, console = [''ERROR::ASSIMP:: incomplete'']\<rparr>)"
  using loadModel_unusable_scene [of incomplete_env "''car/scene.gltf''" True world_init]
  by (simp add: incomplete_env_def incomplete_scene_def AI_SCENE_FLAGS_INCOMPLETE_def world_init_def)

text \<open>
  C2 as stated fails: for a file that cannot be opened the constructor still returns
  (the \<open>Inr\<close> result) a model object; the only trace of the failure is the console
  line.
\<close>

theorem failed_import_returns_a_Model:
  "fst (ReadFile missing_file_env ''missing.gltf'') = None
 \<and> Model_ctor missing_file_env ''missing.gltf'' False world_init =
      Inr (Model_empty False, \<lparr>gl = gl_init, console = [''ERROR::ASSIMP:: Unable to open file'']\<rparr>)"
  by (simp add: Model_ctor_def loadModel_def missing_file_env_def usable_scene_def world_init_def)

text \<open>
  C7, as the code has it. When the image at \<open>dir/path\<close> does not decode,
  \<^verbatim>\<open>TextureFromFile\<close> returns the texture name it has just generated (the successor
  of the count of names so far: not zero, and above every earlier name), prints
  \<^verbatim>\<open>Texture failed to load at path: <path>\<close>, and leaves the GL context otherwise
  as it was (no texture object, no image for that name). \<^verbatim>\<open>loadMaterialTextures\<close>,
  asked for that one path, then records a texture with that name in the list it
  returns and in the registry.
\<close>

theorem TextureFromFile_decode_failure:
  assumes "stbi_load E (dir @ ''/'' @ path) = None"
  shows "TextureFromFile E path dir gamma w =
           (Suc (gen_textures (gl w)),
            w\<lparr>gl := (gl w)\<lparr>gen_textures := Suc (gen_textures (gl w))\<rparr>,
              console := console w @ [''Texture failed to load at path: '' @ path]\<rparr>)
       \<and> (\<forall>M mat ty typeName str.
             directory M = dir \<and> c_str str = path \<and> mat ty = [str]
             \<and> find_loaded (textures_loaded M) str = None \<longrightarrow>
             loadMaterialTextures E mat ty typeName M w =
               ([new_Texture (Suc (gen_textures (gl w))) typeName path],
                M\<lparr>textures_loaded := textures_loaded M
                     @ [new_Texture (Suc (gen_textures (gl w))) typeName path]\<rparr>,
                snd (TextureFromFile E path dir gamma w)))"
  using assms
  by (auto simp: TextureFromFile_def glGenTextures_def loadMaterialTextures_def Let_def)

theorem TextureFromFile_decode_failure_witness:
  "stbi_load missing_file_env (''dir'' @ ''/'' @ ''a.png'') = None
 \<and> TextureFromFile missing_file_env ''a.png'' ''dir'' True world_init =
      (1, \<lparr>gl = gl_init\<lparr>gen_textures := 1\<rparr>,
           console = [''Texture failed to load at path: a.png'']\<rparr>)
 \<and> tex_objects (gl (snd (TextureFromFile missing_file_env ''a.png'' ''dir'' True world_init))) 1 = None"
  using TextureFromFile_decode_failure [of missing_file_env "''dir''" "''a.png''" True world_init]
  by (simp add: missing_file_env_def world_init_def gl_init_def)

text \<open>
  C7 as stated fails: from a fresh context a failed load returns name 1, the name a
  successful load returns there as well, and the next failed load returns 2; the
  caller keeps the texture (name 1) in the list it returns.
\<close>

theorem failed_load_returns_ordinary_name:
  "fst (TextureFromFile missing_file_env ''a.png'' ''dir'' False world_init) = 1
 \<and> fst (TextureFromFile decoding_env ''a.png'' ''dir'' False world_init) = 1
 \<and> fst (TextureFromFile missing_file_env ''b.png'' ''dir'' False
          (snd (TextureFromFile missing_file_env ''a.png'' ''dir'' False world_init))) = 2
 \<and> map id_t (fst (loadMaterialTextures missing_file_env one_diffuse_material
          aiTextureType_DIFFUSE ''texture_diffuse'' (Model_empty False) world_init)) = [1]"
  by (simp add: TextureFromFile_def glGenTextures_def loadMaterialTextures_def Let_def
      missing_file_env_def decoding_env_def world_init_def gl_init_def one_diffuse_material_def
      Model_empty_def new_Texture_def split: prod.splits)

subsection \<open>processMesh\<close>

lemma loadMaterialTextures_loop_tables:
  "loadMaterialTextures_loop E tn strs acc M w = (ts, M', w') \<Longrightarrow>
     M' = M\<lparr>textures_loaded := textures_loaded M'\<rparr>"
proof (induction strs arbitrary: acc M w)
  case Nil
  then show ?case by simp
next
  case (Cons str strs)
  show ?case
  proof (cases "find_loaded (textures_loaded M) str")
    case None
    obtain tid w1 where tf: "TextureFromFile E (c_str str) (directory M) (tn = ''texture_diffuse'') w = (tid, w1)"
      by (cases "TextureFromFile E (c_str str) (directory M) (tn = ''texture_diffuse'') w")
    from Cons.prems None tf
    have "loadMaterialTextures_loop E tn strs (acc @ [new_Texture tid tn (c_str str)])
            (M\<lparr>textures_loaded := textures_loaded M @ [new_Texture tid tn (c_str str)]\<rparr>) w1 = (ts, M', w')"
      by (simp add: Let_def)
    from Cons.IH[OF this] show ?thesis by (cases M', cases M) auto
  next
    case (Some t)
    with Cons.prems have "loadMaterialTextures_loop E tn strs (acc @ [t]) M w = (ts, M', w')"
      by simp
    from Cons.IH[OF this] show ?thesis .
  qed
qed

lemma mesh_textures_tables:
  assumes "mesh_textures E material mi M w = (ts, M', w')"
  shows "M' = M\<lparr>textures_loaded := textures_loaded M'\<rparr>"
proof -
  obtain d M1 w1 where 1: "loadMaterialTextures E material aiTextureType_DIFFUSE ''texture_diffuse'' M w = (d, M1, w1)"
    by (metis prod_cases3)
  obtain sp M2 w2 where 2: "loadMaterialTextures E material aiTextureType_SPECULAR ''texture_specular'' M1 w1 = (sp, M2, w2)"
    by (metis prod_cases3)
  obtain n M3 w3 where 3: "loadMaterialTextures E material aiTextureType_HEIGHT ''texture_normal'' M2 w2 = (n, M3, w3)"
    by (metis prod_cases3)
  obtain h M4 w4 where 4: "loadMaterialTextures E material aiTextureType_AMBIENT ''texture_height'' M3 w3 = (h, M4, w4)"
    by (metis prod_cases3)
  have e1: "M1 = M\<lparr>textures_loaded := textures_loaded M1\<rparr>"
    using 1 loadMaterialTextures_loop_tables unfolding loadMaterialTextures_def by blast
  have e2: "M2 = M1\<lparr>textures_loaded := textures_loaded M2\<rparr>"
    using 2 loadMaterialTextures_loop_tables unfolding loadMaterialTextures_def by blast
  have e3: "M3 = M2\<lparr>textures_loaded := textures_loaded M3\<rparr>"
    using 3 loadMaterialTextures_loop_tables unfolding loadMaterialTextures_def by blast
  have e4: "M4 = M3\<lparr>textures_loaded := textures_loaded M4\<rparr>"
    using 4 loadMaterialTextures_loop_tables unfolding loadMaterialTextures_def by blast
  have "M' = M4"
    using assms 1 2 3 4 by (simp add: mesh_textures_def Let_def split: if_splits)
  then show ?thesis
    using e1 e2 e3 e4 by (cases M, cases M1, cases M2, cases M3, cases M4) auto
qed

lemma setupMesh_fields:
  "setupMesh m g = (m', g') \<Longrightarrow>
     m' = m\<lparr>VAO := VAO m', VBO := VBO m', EBO := EBO m'\<rparr>"
  by (auto simp: setupMesh_def Let_def glGenVertexArrays_def glGenBuffers_def split: prod.splits)

lemma Mesh_ctor_fields:
  assumes "Mesh_ctor vs is ts bcf tr mf rf g = (m, g')"
  shows "vertices m = vs" "indices m = is" "textures m = ts" "baseColorFactor m = bcf"
    "transparent m = tr" "metallicFactor m = mf" "roughnessFactor m = rf" "centroid m = vec3_zero"
  using assms setupMesh_fields[of _ g m g']
  by (auto simp: Mesh_ctor_def setupMesh_def Let_def glGenVertexArrays_def glGenBuffers_def split: prod.splits)

text \<open>What a successful processMesh returns, field by field.\<close>

lemma processMesh_Inr:
  assumes "processMesh E mesh scene T M w = Inr (m, M', w')"
  shows "\<exists>material.
           read_at (Some (mMaterials scene)) (mMaterialIndex mesh) = Inr material
         \<and> processVertices (default_Vertex E) T mesh = Inr (vertices m)
         \<and> indices m = concat (mFaces mesh)
         \<and> textures m = fst (mesh_textures E material (mMaterialIndex mesh) M w)
         \<and> M' = fst (snd (mesh_textures E material (mMaterialIndex mesh) M w))
         \<and> transparent m = compute_transparent M' (mMaterialIndex mesh) (textures m)
         \<and> baseColorFactor m =
              (if mMaterialIndex mesh < length (materialBaseColorFactors M')
               then materialBaseColorFactors M' ! mMaterialIndex mesh else (1, 1, 1, 1))
         \<and> compute_centroid (vertices m) = Inr (centroid m)"
proof -
  obtain vs where vs: "processVertices (default_Vertex E) T mesh = Inr vs"
    using assms by (cases "processVertices (default_Vertex E) T mesh") (auto simp: processMesh_def then_f_def)
  obtain material where mat: "read_at (Some (mMaterials scene)) (mMaterialIndex mesh) = Inr material"
    using assms vs by (cases "read_at (Some (mMaterials scene)) (mMaterialIndex mesh)")
      (auto simp: processMesh_def then_f_def Let_def)
  obtain ts M1 w1 where mt: "mesh_textures E material (mMaterialIndex mesh) M w = (ts, M1, w1)"
    by (metis prod_cases3)
  obtain c where c: "compute_centroid vs = Inr c"
    using assms vs mat mt by (cases "compute_centroid vs")
      (auto simp: processMesh_def then_f_def Let_def)
  let ?bcf = "if mMaterialIndex mesh < length (materialBaseColorFactors M1)
               then materialBaseColorFactors M1 ! mMaterialIndex mesh else (1, 1, 1, 1)"
  let ?mf = "if mMaterialIndex mesh < length (materialMetallicFactors M1)
                     then materialMetallicFactors M1 ! mMaterialIndex mesh else 1"
  let ?rf = "if mMaterialIndex mesh < length (materialRoughnessFactors M1)
                     then materialRoughnessFactors M1 ! mMaterialIndex mesh else 1"
  obtain m0 g0 where mc: "Mesh_ctor vs (concat (mFaces mesh)) ts ?bcf
        (compute_transparent M1 (mMaterialIndex mesh) ts) ?mf ?rf (gl w1) = (m0, g0)"
    by (metis prod.exhaust)
  have res: "m = m0\<lparr>centroid := c\<rparr>" "M' = M1"
    using assms vs mat mt c mc by (simp_all add: processMesh_def then_f_def Let_def)
  show ?thesis
    using Mesh_ctor_fields[OF mc] res mat vs mt c by simp
qed

lemma compute_centroid_no_div0: "compute_centroid vs \<noteq> Inl DivideByZero"
  by (auto simp: compute_centroid_def vec3_div_def Let_def split: prod.splits)

lemma read_at_no_div0: "read_at arr i \<noteq> Inl DivideByZero"
  by (auto simp: read_at_def split: option.splits)

lemma processVertex_no_div0: "processVertex v0 T mesh i \<noteq> Inl DivideByZero"
  using read_at_no_div0
  by (auto simp: processVertex_def then_f_def Let_def read_at_def
      split: sum.splits option.splits if_splits prod.splits)

lemma collect_no_div0:
  "(\<forall>r \<in> set rs. r \<noteq> Inl DivideByZero) \<Longrightarrow> collect rs \<noteq> Inl DivideByZero"
  by (induction rs) (auto split: sum.splits)

lemma processVertices_no_div0: "processVertices v0 T mesh \<noteq> Inl DivideByZero"
  unfolding processVertices_def by (rule collect_no_div0) (auto simp: processVertex_no_div0)

lemma processMesh_no_div0: "processMesh E mesh scene T M w \<noteq> Inl DivideByZero"
  using processVertices_no_div0[of "default_Vertex E" T mesh]
    read_at_no_div0[of "Some (mMaterials scene)" "mMaterialIndex mesh"]
    compute_centroid_no_div0
  by (auto simp: processMesh_def then_f_def Let_def split: sum.splits prod.splits)

text \<open>
  C10. The centroid computation never divides by zero: \<^verbatim>\<open>compute_centroid\<close> and
  \<^verbatim>\<open>processMesh\<close> never fail with \<open>DivideByZero\<close>, and a mesh imported with an empty
  vertex list has centroid \<open>(0, 0, 0)\<close>.
\<close>

theorem centroid_empty_guarded:
  "compute_centroid vs \<noteq> Inl DivideByZero
 \<and> processMesh E mesh scene T M w \<noteq> Inl DivideByZero
 \<and> (processMesh E mesh scene T M w = Inr (m, M', w') \<and> vertices m = []
      \<longrightarrow> centroid m = (0, 0, 0))"
proof -
  have "centroid m = (0, 0, 0)"
    if "processMesh E mesh scene T M w = Inr (m, M', w')" and "vertices m = []"
  proof -
    from processMesh_Inr[OF that(1)] have "compute_centroid (vertices m) = Inr (centroid m)"
      by blast
    with that(2) show ?thesis by (simp add: compute_centroid_def vec3_zero_def)
  qed
  then show ?thesis
    using compute_centroid_no_div0 processMesh_no_div0 by blast
qed


theorem centroid_empty_guarded_witness:
  "processMesh missing_file_env empty_mesh empty_mesh_scene mat4_identity (Model_empty False) world_init
     = Inr (projr (processMesh missing_file_env empty_mesh empty_mesh_scene mat4_identity
                     (Model_empty False) world_init))
 \<and> vertices (fst (projr (processMesh missing_file_env empty_mesh empty_mesh_scene mat4_identity
                     (Model_empty False) world_init))) = []
 \<and> centroid (fst (projr (processMesh missing_file_env empty_mesh empty_mesh_scene mat4_identity
                     (Model_empty False) world_init))) = (0, 0, 0)"
  using centroid_empty_guarded [of "[]" missing_file_env empty_mesh empty_mesh_scene mat4_identity
      "Model_empty False" world_init
      "fst (projr (processMesh missing_file_env empty_mesh empty_mesh_scene mat4_identity
                     (Model_empty False) world_init))"
      "fst (snd (projr (processMesh missing_file_env empty_mesh empty_mesh_scene mat4_identity
                     (Model_empty False) world_init)))"
      "snd (snd (projr (processMesh missing_file_env empty_mesh empty_mesh_scene mat4_identity
                     (Model_empty False) world_init)))"]
  by (simp add: processMesh_eval missing_file_env_def empty_mesh_def empty_mesh_scene_def
      no_textures_def zero_Vertex_def)

lemma str_find_iff: "str_find s pat \<noteq> None \<longleftrightarrow> (\<exists>pre post. s = pre @ pat @ post)"
proof (induction s)
  case Nil
  then show ?case by auto
next
  case (Cons c cs)
  show ?case
  proof (cases "take (length pat) (c # cs) = pat")
    case True
    then have "c # cs = [] @ pat @ drop (length pat) (c # cs)"
      by (metis append_Nil append_take_drop_id)
    then have "\<exists>pre post. c # cs = pre @ pat @ post" by blast
    with True show ?thesis by simp
  next
    case False
    have "(\<exists>pre post. c # cs = pre @ pat @ post) \<longleftrightarrow> (\<exists>pre post. cs = pre @ pat @ post)"
    proof
      assume "\<exists>pre post. c # cs = pre @ pat @ post"
      then obtain pre post where e: "c # cs = pre @ pat @ post" by blast
      show "\<exists>pre post. cs = pre @ pat @ post"
      proof (cases pre)
        case Nil
        with e have "take (length pat) (c # cs) = pat" by simp
        with False show ?thesis by simp
      next
        case (Cons x pre')
        with e have "cs = pre' @ pat @ post" by simp
        then show ?thesis by blast
      qed
    next
      assume "\<exists>pre post. cs = pre @ pat @ post"
      then obtain pre post where "cs = pre @ pat @ post" by blast
      then have "c # cs = (c # pre) @ pat @ post" by simp
      then show "\<exists>pre post. c # cs = pre @ pat @ post" by blast
    qed
    with False Cons.IH show ?thesis by simp
  qed
qed

lemma path_has_keyword_iff:
  "path_has_keyword p \<longleftrightarrow>
     (\<exists>k \<in> {''glass'', ''alpha'', ''transp''}. \<exists>pre post. map tolower p = pre @ k @ post)"
  unfolding path_has_keyword_def Let_def str_find_iff by blast

lemma compute_transparent_iff:
  "compute_transparent M mi ts \<longleftrightarrow>
     (mi < length (materialBaseColorFactors M) \<and> alpha (materialBaseColorFactors M ! mi) < float_0_999)
     \<or> (\<exists>t \<in> set ts. path_has_keyword (path_t t))"
  by (auto simp: compute_transparent_def Let_def list_ex_iff)

text \<open>
  C4, as the code has it. The transparency flag of an imported mesh is true exactly
  when the alpha of its base-color factor is below \<^verbatim>\<open>0.999f\<close>, or the lower-cased
  path of one of its textures contains \<open>glass\<close>, \<open>alpha\<close> or \<open>transp\<close>. The
  base-color factor is the entry of the glTF table at the mesh's material index, and
  opaque white when the index is outside the table.
\<close>

theorem processMesh_transparent:
  assumes "processMesh E mesh scene T M w = Inr (m, M', w')"
  shows "(transparent m \<longleftrightarrow>
            alpha (baseColorFactor m) < float_0_999
          \<or> (\<exists>t \<in> set (textures m). \<exists>k \<in> {''glass'', ''alpha'', ''transp''}.
                \<exists>pre post. map tolower (path_t t) = pre @ k @ post))
       \<and> baseColorFactor m =
           (if mMaterialIndex mesh < length (materialBaseColorFactors M)
            then materialBaseColorFactors M ! mMaterialIndex mesh else (1, 1, 1, 1))"
proof -
  from processMesh_Inr[OF assms] obtain material where
    tx: "textures m = fst (mesh_textures E material (mMaterialIndex mesh) M w)"
    and M': "M' = fst (snd (mesh_textures E material (mMaterialIndex mesh) M w))"
    and tr: "transparent m = compute_transparent M' (mMaterialIndex mesh) (textures m)"
    and bc: "baseColorFactor m =
              (if mMaterialIndex mesh < length (materialBaseColorFactors M')
               then materialBaseColorFactors M' ! mMaterialIndex mesh else (1, 1, 1, 1))"
    by blast
  have "M' = M\<lparr>textures_loaded := textures_loaded M'\<rparr>"
    using mesh_textures_tables[of E material "mMaterialIndex mesh" M w] M'
    by (metis prod.collapse)
  then have tb: "materialBaseColorFactors M' = materialBaseColorFactors M"
    by (metis Model.select_convs(8) Model.surjective Model.update_convs(1))
  have one: "\<not> alpha (1, 1, 1, 1) < float_0_999"
    by (simp add: float_0_999_def)
  show ?thesis
    using tr bc one unfolding tb compute_transparent_iff path_has_keyword_iff
    by auto
qed

theorem processMesh_transparent_witness:
  "processMesh decoding_env triangle glass_scene mat4_identity (Model_empty False) world_init
     = Inr (projr (processMesh decoding_env triangle glass_scene mat4_identity
                     (Model_empty False) world_init))
 \<and> transparent (fst (projr (processMesh decoding_env triangle glass_scene mat4_identity
                     (Model_empty False) world_init)))
 \<and> map path_t (textures (fst (projr (processMesh decoding_env triangle glass_scene mat4_identity
                     (Model_empty False) world_init)))) = [''tex/Glass_Window.PNG'']
 \<and> map tolower ''tex/Glass_Window.PNG'' = ''tex/'' @ ''glass'' @ ''_window.png''"
  using processMesh_transparent [of decoding_env triangle glass_scene mat4_identity
      "Model_empty False" world_init
      "fst (projr (processMesh decoding_env triangle glass_scene mat4_identity
                     (Model_empty False) world_init))"
      "fst (snd (projr (processMesh decoding_env triangle glass_scene mat4_identity
                     (Model_empty False) world_init)))"
      "snd (snd (projr (processMesh decoding_env triangle glass_scene mat4_identity
                     (Model_empty False) world_init)))"]
  by (simp add: processMesh_eval decoding_env_def triangle_def glass_scene_def glass_material_def
      zero_Vertex_def one_pixel_def aiIdentity_def upt_rec tolower_def char_of_eq_iff
      path_has_keyword_def update_current_texture_def current_texture_def glBindTexture_def
      glTexImage2D_def glGenerateMipmap_def glTexParameters_def new_tex_object_def)

text \<open>
  C4 as stated fails between the two thresholds: a material with alpha
  \<open>2047/2048 < 1\<close> and no textures is imported as opaque.
\<close>

theorem faint_alpha_stays_opaque:
  "map transparent (imported_meshes (Model_ctor faint_env ''car/scene.gltf'' False world_init)) = [False]
 \<and> map baseColorFactor (imported_meshes (Model_ctor faint_env ''car/scene.gltf'' False world_init))
      = [(1, 1, 1, 2047 / 2048)]
 \<and> map textures (imported_meshes (Model_ctor faint_env ''car/scene.gltf'' False world_init)) = [[]]
 \<and> (2047 / 2048 :: real) < 1"
  by (simp add: import_eval faint_env_def faint_scene_def faint_json_def triangle_def no_textures_def
      zero_Vertex_def upt_rec)
















subsection \<open>Model::Draw\<close>
























subsection \<open>The texture registry\<close>

text \<open>
  The textures that \<^verbatim>\<open>loadMaterialTextures\<close> returns do obey the registry discipline:
  the registry only grows, keeps one entry per path, and holds every texture returned.
\<close>

lemma c_str_idem: "c_str (c_str s) = c_str s"
  by (simp add: c_str_def)

lemma find_loaded_None:
  "find_loaded reg str = None \<longleftrightarrow> c_str str \<notin> (\<lambda>t. c_str (path_t t)) ` set reg"
  by (induction reg) auto

lemma find_loaded_Some: "find_loaded reg str = Some t \<Longrightarrow> t \<in> set reg"
  by (induction reg) (auto split: if_splits)

lemma loadMaterialTextures_loop_registry:
  assumes "loadMaterialTextures_loop E tn strs acc M w = (ts, M', w')"
      and "distinct (map (\<lambda>t. c_str (path_t t)) (textures_loaded M))"
      and "set acc \<subseteq> set (textures_loaded M)"
  shows "distinct (map (\<lambda>t. c_str (path_t t)) (textures_loaded M'))
       \<and> set ts \<subseteq> set (textures_loaded M')
       \<and> (\<exists>new. textures_loaded M' = textures_loaded M @ new)"
  using assms
proof (induction strs arbitrary: acc M w)
  case Nil
  then show ?case by simp
next
  case (Cons str strs)
  show ?case
  proof (cases "find_loaded (textures_loaded M) str")
    case None
    obtain tid w1 where tf:
      "TextureFromFile E (c_str str) (directory M) (tn = ''texture_diffuse'') w = (tid, w1)"
      by (cases "TextureFromFile E (c_str str) (directory M) (tn = ''texture_diffuse'') w")
    let ?t = "new_Texture tid tn (c_str str)"
    let ?M = "M\<lparr>textures_loaded := textures_loaded M @ [?t]\<rparr>"
    from Cons.prems(1) None tf
    have run: "loadMaterialTextures_loop E tn strs (acc @ [?t]) ?M w1 = (ts, M', w')"
      by (simp add: Let_def)
    have d: "distinct (map (\<lambda>t. c_str (path_t t)) (textures_loaded ?M))"
      using Cons.prems(2) None by (simp add: find_loaded_None new_Texture_def c_str_idem)
    have a: "set (acc @ [?t]) \<subseteq> set (textures_loaded ?M)"
      using Cons.prems(3) by auto
    from Cons.IH[OF run d a] show ?thesis by auto
  next
    case (Some t)
    with Cons.prems(1) have run: "loadMaterialTextures_loop E tn strs (acc @ [t]) M w = (ts, M', w')"
      by simp
    have a: "set (acc @ [t]) \<subseteq> set (textures_loaded M)"
      using Cons.prems(3) find_loaded_Some[OF Some] by auto
    from Cons.IH[OF run Cons.prems(2) a] show ?thesis .
  qed
qed

lemma loadMaterialTextures_registry:
  assumes "loadMaterialTextures E mat ty tn M w = (ts, M', w')"
      and "distinct (map (\<lambda>t. c_str (path_t t)) (textures_loaded M))"
  shows "distinct (map (\<lambda>t. c_str (path_t t)) (textures_loaded M'))
       \<and> set ts \<subseteq> set (textures_loaded M')
       \<and> (\<exists>new. textures_loaded M' = textures_loaded M @ new)"
  using loadMaterialTextures_loop_registry[OF assms(1)[unfolded loadMaterialTextures_def] assms(2)]
  by simp

text \<open>
  C1 on the asset above. The textures added from the glTF JSON are searched for in the
  mesh's own list only and never stored in \<^verbatim>\<open>textures_loaded\<close>: after the import
  both meshes carry a texture for \<open>mr.png\<close>, with two different texture names (1 and
  2), and the registry is empty.
\<close>

theorem shared_image_loaded_twice:
  "map (map path_t \<circ> textures)
     (imported_meshes (Model_ctor shared_image_env ''car/scene.gltf'' False world_init))
     = [[''mr.png''], [''mr.png'']]
 \<and> map (map id_t \<circ> textures)
     (imported_meshes (Model_ctor shared_image_env ''car/scene.gltf'' False world_init))
     = [[1], [2]]
 \<and> imported_registry (Model_ctor shared_image_env ''car/scene.gltf'' False world_init) = []"
  by (simp add: import_eval texture_eval imported_registry_def shared_image_env_def
      shared_image_scene_def shared_image_json_def mr_material_json_def triangle_def
      no_textures_def zero_Vertex_def one_pixel_def upt_rec)

end
